theory Spec2Isabelle
  imports Complex_Main "HOL-Library.Option_ord"
begin

section \<open>Documents of the store\<close>

text \<open>
  The shop keeps its data in MongoDB collections. A document is a record, a collection a
  list (the catalog, the orders, the users) or a map keyed by the owning user (the carts:
  \<^verbatim>\<open>Cart.findOne({ user: req.user._id })\<close>). Object ids are strings, quantities and
  sizes are integers, money is an exact rational (JavaScript numbers are doubles; the
  model computes with the exact values). Optional fields are \<open>option\<close>s: \<open>None\<close> is a
  missing field (JavaScript \<^verbatim>\<open>undefined\<close>).
\<close>

type_synonym object_id = string
type_synonym money = rat

record size_entry =
  se_size :: int
  se_quantity :: int

record color =
  col_name :: string
  col_code :: string
  col_images :: "string list"

text \<open>
  A product document. \<open>p_stock\<close>, \<open>p_quantity\<close> and \<open>p_images\<close> are the top-level
  fields \<^verbatim>\<open>stock\<close>, \<^verbatim>\<open>quantity\<close> and \<^verbatim>\<open>images\<close> that some routes read; the creation
  routes never write them.
\<close>

record product =
  p_id :: object_id
  p_name :: string
  p_description :: string
  p_price :: money
  p_discountPrice :: "money option"
  p_category :: string
  p_brand :: string
  p_sizes :: "size_entry list"
  p_colors :: "color list"
  p_featured :: bool
  p_images :: "string list option"
  p_stock :: "int option"
  p_quantity :: "int option"

record cart_item =
  ci_product :: object_id
  ci_name :: string
  ci_price :: money
  ci_discountedPrice :: "money option"
  ci_quantity :: int
  ci_size :: int
  ci_color :: string
  ci_image :: string

record cart =
  c_user :: object_id
  c_items :: "cart_item list"

record order_item =
  oi_product :: object_id
  oi_name :: string
  oi_price :: money
  oi_quantity :: int
  oi_size :: int
  oi_color :: string

record order =
  o_id :: object_id
  o_orderId :: "string option"
  o_user :: object_id
  o_items :: "order_item list"
  o_status :: "string option"
  o_orderStatus :: "string option"
  o_paymentStatus :: "string option"
  o_totalAmount :: "money option"
  o_createdAt :: "int option"

record user =
  u_id :: object_id
  u_createdAt :: "int option"

record store =
  products :: "product list"
  carts :: "object_id \<rightharpoonup> cart"
  orders :: "order list"
  users :: "user list"

subsection \<open>Database operations that can reject\<close>

text \<open>
  Every database call of the routes is awaited inside a \<^verbatim>\<open>try\<close> block. A fault table
  says which calls reject, and with which message; \<open>no_faults\<close> is a database that
  answers every call.
\<close>

datatype db_op =
    ProductCount | OrderCount | UserCount | PendingCount | LowStockCount
  | TodaysOrdersCount | RecentOrdersFind | NewUsersCount | RevenueAggregate
  | ProductFindById | CartFindOne | CartSave | CartPopulate | ProductSave | ProductDelete

type_synonym faults = "db_op \<Rightarrow> string option"

definition no_faults :: faults where
  "no_faults = (\<lambda>_. None)"

fun findById :: "product list \<Rightarrow> object_id \<Rightarrow> product option" where
  "findById [] pid = None"
| "findById (p # ps) pid = (if p_id p = pid then Some p else findById ps pid)"

section \<open>Cart routes\<close>

subsection \<open>\<^verbatim>\<open>GET /cart/count\<close>\<close>

text \<open>
  \<^verbatim>\<open>
  let count = 0;
  if (req.user) {
    const cart = await Cart.findOne({ user: req.user._id });
    count = cart ? cart.items.reduce((sum, item) => sum + item.quantity, 0) : 0;
  }
  res.json({ success: true, count });
  } catch (err) { res.json({ success: true, count: 0 }); }
  \<close>
  The response is always a count; a rejected query is answered with 0.
\<close>

definition cart_items_count :: "cart_item list \<Rightarrow> int" where
  "cart_items_count items = foldl (\<lambda>sum item. sum + ci_quantity item) 0 items"

definition cart_count :: "faults \<Rightarrow> store \<Rightarrow> object_id option \<Rightarrow> int" where
  "cart_count f s req_user =
     (case req_user of
        None \<Rightarrow> 0
      | Some uid \<Rightarrow>
          (case f CartFindOne of
             Some err \<Rightarrow> 0
           | None \<Rightarrow>
               (case carts s uid of
                  None \<Rightarrow> 0
                | Some cart \<Rightarrow> cart_items_count (c_items cart))))"

subsection \<open>\<^verbatim>\<open>POST /:id/cart\<close>: add to cart\<close>

text \<open>
  \<^verbatim>\<open>
  const product = await Product.findById(req.params.id);
  if (!product) return res.status(404).json({ success: false, ... });
  const { quantity = 1, size, color } = req.body;
  let cart = await Cart.findOne({ user: req.user._id });
  if (!cart) cart = new Cart({ user: req.user._id, items: [] });
  const existingItemIndex = cart.items.findIndex(
    item => item.product.toString() === product._id.toString() &&
            item.size === size && item.color === color);
  if (existingItemIndex > -1) {
    cart.items[existingItemIndex].quantity += parseInt(quantity);
  } else {
    cart.items.push({ product: product._id, name: product.name, price: product.price,
      discountedPrice: product.discountPrice, quantity: parseInt(quantity), size, color,
      image: product.colors[0]?.images?.[0] || product.images?.[0]
             || '/images/default-product.jpg' });
  }
  await cart.save();
  await cart.populate('items.product', 'name price images stock');
  res.json({ success: true, message: ..., cart,
             cartCount: cart.items.reduce((sum, item) => sum + item.quantity, 0) });
  } catch (error) { res.status(500).json({ success: false, ... }); }
  \<close>
  The route runs behind \<^verbatim>\<open>ensureAuthenticated\<close>: \<open>uid\<close> is the id of the logged-in user.
  The request body carries an integer quantity (or none: the default 1 applies), on which
  \<^verbatim>\<open>parseInt\<close> is the identity, and a size and a color of the type the cart stores, so
  that \<^verbatim>\<open>===\<close> is equality. \<^verbatim>\<open>findIndex\<close> returns the first matching index, \<open>None\<close>
  standing for \<^verbatim>\<open>-1\<close>. A rejected \<^verbatim>\<open>populate\<close> answers 500 after the cart was saved.
\<close>

record add_body =
  b_quantity :: "int option"
  b_size :: int
  b_color :: string

datatype add_response = NotFound404 | AddOk cart int | Error500

fun findIndex :: "('a \<Rightarrow> bool) \<Rightarrow> 'a list \<Rightarrow> nat option" where
  "findIndex P [] = None"
| "findIndex P (x # xs) = (if P x then Some 0 else map_option Suc (findIndex P xs))"

text \<open>\<^verbatim>\<open>a || b\<close> on optional strings: the first one that is present and not empty.\<close>

definition or_else :: "string option \<Rightarrow> string option \<Rightarrow> string option" where
  "or_else a b = (case a of Some x \<Rightarrow> (if x \<noteq> [] then a else b) | None \<Rightarrow> b)"

definition first_opt :: "'a list \<Rightarrow> 'a option" where
  "first_opt xs = (case xs of [] \<Rightarrow> None | x # _ \<Rightarrow> Some x)"

definition item_image :: "product \<Rightarrow> string" where
  "item_image p =
     (case or_else
             (or_else (case first_opt (p_colors p) of
                         None \<Rightarrow> None
                       | Some c \<Rightarrow> first_opt (col_images c))
                      (case p_images p of
                         None \<Rightarrow> None
                       | Some imgs \<Rightarrow> first_opt imgs))
             (Some ''/images/default-product.jpg'') of
        Some img \<Rightarrow> img
      | None \<Rightarrow> [])"

definition same_key :: "object_id \<Rightarrow> int \<Rightarrow> string \<Rightarrow> cart_item \<Rightarrow> bool" where
  "same_key pid sz col item \<longleftrightarrow>
     ci_product item = pid \<and> ci_size item = sz \<and> ci_color item = col"

definition new_item :: "product \<Rightarrow> int \<Rightarrow> int \<Rightarrow> string \<Rightarrow> cart_item" where
  "new_item p quantity sz col =
     \<lparr>ci_product = p_id p, ci_name = p_name p, ci_price = p_price p,
      ci_discountedPrice = p_discountPrice p, ci_quantity = quantity,
      ci_size = sz, ci_color = col, ci_image = item_image p\<rparr>"

definition add_to_items :: "product \<Rightarrow> int \<Rightarrow> int \<Rightarrow> string \<Rightarrow> cart_item list \<Rightarrow> cart_item list" where
  "add_to_items p quantity sz col items =
     (case findIndex (same_key (p_id p) sz col) items of
        Some i \<Rightarrow> items[i := (items ! i)\<lparr>ci_quantity := ci_quantity (items ! i) + quantity\<rparr>]
      | None \<Rightarrow> items @ [new_item p quantity sz col])"

definition addItem ::
  "faults \<Rightarrow> store \<Rightarrow> object_id \<Rightarrow> object_id \<Rightarrow> add_body \<Rightarrow> add_response \<times> store" where
  "addItem f s uid pid body =
     (case f ProductFindById of
        Some err \<Rightarrow> (Error500, s)
      | None \<Rightarrow>
     (case findById (products s) pid of
        None \<Rightarrow> (NotFound404, s)
      | Some p \<Rightarrow>
     (case f CartFindOne of
        Some err \<Rightarrow> (Error500, s)
      | None \<Rightarrow>
          let quantity = (case b_quantity body of None \<Rightarrow> 1 | Some q \<Rightarrow> q);
              cart = (case carts s uid of
                        None \<Rightarrow> \<lparr>c_user = uid, c_items = []\<rparr>
                      | Some c \<Rightarrow> c);
              cart' = cart\<lparr>c_items :=
                        add_to_items p quantity (b_size body) (b_color body) (c_items cart)\<rparr>
          in (case f CartSave of
                Some err \<Rightarrow> (Error500, s)
              | None \<Rightarrow>
                  let s' = s\<lparr>carts := (carts s)(uid \<mapsto> cart')\<rparr>
                  in (case f CartPopulate of
                        Some err \<Rightarrow> (Error500, s')
                      | None \<Rightarrow> (AddOk cart' (cart_items_count (c_items cart')), s'))))))"

text \<open>The lines of a user's cart, none for a user without a cart.\<close>

definition cart_lines :: "store \<Rightarrow> object_id \<Rightarrow> cart_item list" where
  "cart_lines s uid = (case carts s uid of None \<Rightarrow> [] | Some c \<Rightarrow> c_items c)"

subsection \<open>Pricing resolver\<close>

text \<open>
  Modelled from the spec: \<^verbatim>\<open>effectivePrice(product)\<close> is missing, no route of the
  sources resolves a price. By the spec it "returns discount price if present and
  numerically valid (non-negative, non-null), else base price". It takes the base price
  and the optional discount price.
\<close>

definition effectivePrice :: "money \<Rightarrow> money option \<Rightarrow> money" where
  "effectivePrice base discount =
     (case discount of
        Some d \<Rightarrow> (if 0 \<le> d then d else base)
      | None \<Rightarrow> base)"

section \<open>Numbers and strings of JavaScript\<close>

text \<open>\<^verbatim>\<open>Math.round\<close> rounds to the nearest integer, halves towards plus infinity.\<close>

definition Math_round :: "rat \<Rightarrow> int" where
  "Math_round x = \<lfloor>x + 1 / 2\<rfloor>"

text \<open>An integer in a template string: its decimal digits, with a minus sign if negative.\<close>

definition digit_char :: "nat \<Rightarrow> char" where
  "digit_char d = ''0123456789'' ! d"

function show_nat :: "nat \<Rightarrow> string" where
  "show_nat n = (if n < 10 then [digit_char n] else show_nat (n div 10) @ [digit_char (n mod 10)])"
  by pat_completeness auto
termination
  by (relation "measure (\<lambda>n. n)") auto

definition show_int :: "int \<Rightarrow> string" where
  "show_int i = (if i < 0 then CHR ''-'' # show_nat (nat (- i)) else show_nat (nat i))"

section \<open>Admin: creating a product\<close>

subsection \<open>Form fields and \<^verbatim>\<open>parseInt\<close>\<close>

text \<open>
  A field of the parsed form body is a string, or an array of strings when the field name
  occurs several times. \<^verbatim>\<open>if (field)\<close> holds for a non-empty string and for every array;
  \<^verbatim>\<open>String(field)\<close> joins the elements of an array with commas.
\<close>

datatype field = Single string | Multi "string list"

type_synonym form = "string \<rightharpoonup> field"

definition truthy :: "field option \<Rightarrow> bool" where
  "truthy fld = (case fld of None \<Rightarrow> False | Some (Single v) \<Rightarrow> v \<noteq> [] | Some (Multi vs) \<Rightarrow> True)"

fun join_comma :: "string list \<Rightarrow> string" where
  "join_comma [] = []"
| "join_comma [v] = v"
| "join_comma (v # w # vs) = v @ '','' @ join_comma (w # vs)"

definition to_string :: "field \<Rightarrow> string" where
  "to_string fld = (case fld of Single v \<Rightarrow> v | Multi vs \<Rightarrow> join_comma vs)"

text \<open>
  \<^verbatim>\<open>parseInt(string)\<close> without a radix: skip leading white space, read an optional sign,
  read a \<^verbatim>\<open>0x\<close> or \<^verbatim>\<open>0X\<close> prefix as radix 16, take the longest run of digits of the
  radix; \<^verbatim>\<open>NaN\<close> (here \<open>None\<close>) when that run is empty. White space is the ASCII white
  space, where JavaScript also skips the white space beyond ASCII; the value is the exact
  integer, where JavaScript has the nearest double above 2^53.
\<close>

definition is_space :: "char \<Rightarrow> bool" where
  "is_space c \<longleftrightarrow> c \<in> set [CHR 0x09, CHR 0x0A, CHR 0x0B, CHR 0x0C, CHR 0x0D, CHR 0x20]"

definition digit_value :: "char \<Rightarrow> nat option" where
  "digit_value c =
     (case findIndex (\<lambda>d. d = c) ''0123456789abcdef'' of
        Some d \<Rightarrow> Some d
      | None \<Rightarrow> findIndex (\<lambda>d. d = c) ''0123456789ABCDEF'')"

definition is_digit :: "nat \<Rightarrow> char \<Rightarrow> bool" where
  "is_digit radix c = (case digit_value c of None \<Rightarrow> False | Some d \<Rightarrow> d < radix)"

definition digits_value :: "nat \<Rightarrow> string \<Rightarrow> nat" where
  "digits_value radix z =
     foldl (\<lambda>acc c. acc * radix + (case digit_value c of None \<Rightarrow> 0 | Some d \<Rightarrow> d)) 0 z"

definition parseInt :: "string \<Rightarrow> int option" where
  "parseInt str =
     (let s = dropWhile is_space str;
          negative = (take 1 s = ''-'');
          s1 = (if take 1 s = ''+'' \<or> take 1 s = ''-'' then drop 1 s else s);
          hex = (take 2 s1 = ''0x'' \<or> take 2 s1 = ''0X'');
          radix = (if hex then 16 else 10);
          s2 = (if hex then drop 2 s1 else s1);
          z = takeWhile (is_digit radix) s2
      in if z = [] then None
         else Some ((if negative then - 1 else 1) * int (digits_value radix z)))"

text \<open>\<^verbatim>\<open>parseInt(req.body[key])\<close>: a missing field reads as the string \<^verbatim>\<open>undefined\<close>.\<close>

definition parseInt_field :: "field option \<Rightarrow> int option" where
  "parseInt_field fld = (case fld of None \<Rightarrow> None | Some v \<Rightarrow> parseInt (to_string v))"

text \<open>
  \<^verbatim>\<open>`size_${size}_quantity`\<close>, where \<^verbatim>\<open>size\<close> is a number or \<^verbatim>\<open>NaN\<close>. A number is
  printed by its digits, as JavaScript does below 10^21.
\<close>

definition quantityKey :: "int option \<Rightarrow> string" where
  "quantityKey size_no =
     ''size_'' @ (case size_no of None \<Rightarrow> ''NaN'' | Some n \<Rightarrow> show_int n) @ ''_quantity''"

subsection \<open>Step 3 of \<^verbatim>\<open>POST /products/create\<close>: the sizes\<close>

text \<open>
  \<^verbatim>\<open>
  const sizes = [];
  if (req.body.sizes) {
    let sizesArray = req.body.sizes;
    if (!Array.isArray(sizesArray)) sizesArray = [sizesArray];
    sizesArray.forEach(sizeStr => {
      const size = parseInt(sizeStr);
      const quantityKey = `size_${size}_quantity`;
      const quantity = parseInt(req.body[quantityKey]) || 0;
      if (quantity > 0) sizes.push({ size: size, quantity: quantity });
    });
  }
  if (sizes.length === 0) {
    for (let size = 6; size <= 12; size++) {
      const quantityKey = `size_${size}_quantity`;
      if (req.body[quantityKey] && parseInt(req.body[quantityKey]) > 0)
        sizes.push({ size: size, quantity: parseInt(req.body[quantityKey]) });
    }
  }
  if (sizes.length === 0) sizes.push({ size: 9, quantity: 10 });
  \<close>
  The size of an entry built from a checkbox can be \<^verbatim>\<open>NaN\<close> (\<open>None\<close>).
\<close>

record raw_size =
  rs_size :: "int option"
  rs_quantity :: int

definition checkbox_entry :: "form \<Rightarrow> string \<Rightarrow> raw_size list" where
  "checkbox_entry body sizeStr =
     (let size_no = parseInt sizeStr;
          quantity = (case parseInt_field (body (quantityKey size_no)) of None \<Rightarrow> 0 | Some q \<Rightarrow> q)
      in if quantity > 0 then [\<lparr>rs_size = size_no, rs_quantity = quantity\<rparr>] else [])"

definition as_array :: "field \<Rightarrow> string list" where
  "as_array fld = (case fld of Multi vs \<Rightarrow> vs | Single v \<Rightarrow> [v])"

definition sizes_from_checkboxes :: "form \<Rightarrow> raw_size list" where
  "sizes_from_checkboxes body =
     (case body ''sizes'' of
        None \<Rightarrow> []
      | Some sizesField \<Rightarrow>
          (if truthy (Some sizesField)
           then concat (map (checkbox_entry body) (as_array sizesField))
           else []))"

definition positive_quantity :: "form \<Rightarrow> int \<Rightarrow> bool" where
  "positive_quantity body size_no \<longleftrightarrow>
     truthy (body (quantityKey (Some size_no)))
     \<and> (case parseInt_field (body (quantityKey (Some size_no))) of None \<Rightarrow> False | Some q \<Rightarrow> q > 0)"

definition field_entry :: "form \<Rightarrow> int \<Rightarrow> raw_size list" where
  "field_entry body size_no =
     (if positive_quantity body size_no
      then [\<lparr>rs_size = Some size_no,
             rs_quantity = (case parseInt_field (body (quantityKey (Some size_no))) of
                              None \<Rightarrow> 0 | Some q \<Rightarrow> q)\<rparr>]
      else [])"

definition sizes_from_fields :: "form \<Rightarrow> raw_size list" where
  "sizes_from_fields body = concat (map (field_entry body) [6..12])"

definition process_sizes :: "form \<Rightarrow> raw_size list" where
  "process_sizes body =
     (let sizes = sizes_from_checkboxes body;
          sizes = (if sizes = [] then sizes_from_fields body else sizes)
      in if sizes = [] then [\<lparr>rs_size = Some 9, rs_quantity = 10\<rparr>] else sizes)"

subsection \<open>The rest of \<^verbatim>\<open>POST /products/create\<close>\<close>

text \<open>
  The scalar fields of the form are single strings, if present. Reading a decimal number
  out of a string (\<^verbatim>\<open>isNaN\<close>, \<^verbatim>\<open>parseFloat\<close>) is left to two functions that the
  route receives; \<open>None\<close> is \<^verbatim>\<open>NaN\<close>. An uploaded image is known by its URL.
  \<^verbatim>\<open>
  const errors = [];
  if (!name || name.trim() === '') errors.push('Product name is required');
  if (!description || description.trim() === '') errors.push('Description is required');
  if (!price || isNaN(price) || parseFloat(price) <= 0) errors.push('Valid price is required');
  if (!category) errors.push('Category is required');
  if (!brand) errors.push('Brand is required');
  \<close>
\<close>

record js_numbers =
  isNaN :: "string \<Rightarrow> bool"
  parseFloat :: "string \<Rightarrow> money option"

record upload =
  up_path :: string
  up_filename :: string

record create_request =
  cr_admin :: bool
  cr_name :: "string option"
  cr_description :: "string option"
  cr_price :: "string option"
  cr_discountPrice :: "string option"
  cr_category :: "string option"
  cr_brand :: "string option"
  cr_featured :: "string option"
  cr_body :: form
  cr_files :: "upload list"

datatype create_response =
  RedirectAdminLogin | ValidationFailed "string list" | NoImages | CreateFailed | Created object_id

definition trim :: "string \<Rightarrow> string" where
  "trim v = rev (dropWhile is_space (rev (dropWhile is_space v)))"

definition blank :: "string option \<Rightarrow> bool" where
  "blank v = (case v of None \<Rightarrow> True | Some x \<Rightarrow> x = [] \<or> trim x = [])"

definition absent :: "string option \<Rightarrow> bool" where
  "absent v = (case v of None \<Rightarrow> True | Some x \<Rightarrow> x = [])"

definition price_invalid :: "js_numbers \<Rightarrow> string option \<Rightarrow> bool" where
  "price_invalid js v =
     (case v of
        None \<Rightarrow> True
      | Some x \<Rightarrow> x = [] \<or> isNaN js x
                  \<or> (case parseFloat js x of None \<Rightarrow> False | Some n \<Rightarrow> n \<le> 0))"

definition validation_errors :: "js_numbers \<Rightarrow> create_request \<Rightarrow> string list" where
  "validation_errors js req =
     (if blank (cr_name req) then [''Product name is required''] else [])
     @ (if blank (cr_description req) then [''Description is required''] else [])
     @ (if price_invalid js (cr_price req) then [''Valid price is required''] else [])
     @ (if absent (cr_category req) then [''Category is required''] else [])
     @ (if absent (cr_brand req) then [''Brand is required''] else [])"

text \<open>
  \<^verbatim>\<open>
  const colors = [];
  if (req.body.colors) {
    let colorsArray = req.body.colors;
    if (!Array.isArray(colorsArray)) colorsArray = [colorsArray];
    colorsArray = colorsArray.filter(color => color && color.trim() !== '');
    if (colorsArray.length > 0) colorsArray.forEach(colorName => {
      const colorCode = req.body[`color_${colorName}_code`] || '#000000';
      colors.push({ name: colorName, code: colorCode, images: [] });
    });
  }
  if (colors.length === 0) {
    colors.push({ name: 'Default', code: '#000000', images: cloudinaryImages });
  } else {
    const imagesPerColor = Math.ceil(cloudinaryImages.length / colors.length);
    colors.forEach((color, index) => {
      const startIdx = index * imagesPerColor;
      const endIdx = Math.min(startIdx + imagesPerColor, cloudinaryImages.length);
      color.images = cloudinaryImages.slice(startIdx, endIdx);
    });
  }
  \<close>
\<close>

definition color_code :: "form \<Rightarrow> string \<Rightarrow> string" where
  "color_code body colorName =
     (case body (''color_'' @ colorName @ ''_code'') of
        None \<Rightarrow> ''#000000''
      | Some fld \<Rightarrow> (if truthy (Some fld) then to_string fld else ''#000000''))"

definition process_colors :: "form \<Rightarrow> color list" where
  "process_colors body =
     (case body ''colors'' of
        None \<Rightarrow> []
      | Some colorsField \<Rightarrow>
          (if truthy (Some colorsField)
           then map (\<lambda>colorName. \<lparr>col_name = colorName, col_code = color_code body colorName,
                                   col_images = []\<rparr>)
                  (filter (\<lambda>color. color \<noteq> [] \<and> trim color \<noteq> []) (as_array colorsField))
           else []))"

definition assign_images :: "color list \<Rightarrow> string list \<Rightarrow> color list" where
  "assign_images colors cloudinaryImages =
     (if colors = []
      then [\<lparr>col_name = ''Default'', col_code = ''#000000'', col_images = cloudinaryImages\<rparr>]
      else
        let imagesPerColor = (length cloudinaryImages + length colors - 1) div length colors
        in map (\<lambda>(index, color).
                  let startIdx = index * imagesPerColor;
                      endIdx = min (startIdx + imagesPerColor) (length cloudinaryImages)
                  in color\<lparr>col_images := take (endIdx - startIdx) (drop startIdx cloudinaryImages)\<rparr>)
               (enumerate 0 colors))"

text \<open>
  Modelled from the spec: the Product schema (\<^verbatim>\<open>models/Product\<close>) is missing. By the
  spec a stored size entry is \<^verbatim>\<open>{size: integer, quantity: integer}\<close> and a price is a
  number, so \<^verbatim>\<open>save\<close> does not cast a document with a \<^verbatim>\<open>NaN\<close> in one of them. The
  validators of the schema are a predicate on product documents that the routes receive
  as \<open>valid\<close>; a document that it rejects is not saved.
\<close>

fun cast_sizes :: "raw_size list \<Rightarrow> size_entry list option" where
  "cast_sizes [] = Some []"
| "cast_sizes (r # rs) =
     (case rs_size r of
        None \<Rightarrow> None
      | Some n \<Rightarrow>
          (case cast_sizes rs of
             None \<Rightarrow> None
           | Some es \<Rightarrow> Some (\<lparr>se_size = n, se_quantity = rs_quantity r\<rparr> # es)))"

text \<open>
  \<^verbatim>\<open>discountPrice ? parseFloat(discountPrice) : undefined\<close>: \<open>Some None\<close> is
  \<^verbatim>\<open>undefined\<close>, \<open>None\<close> is \<^verbatim>\<open>NaN\<close>.
\<close>

definition read_discount :: "js_numbers \<Rightarrow> string option \<Rightarrow> money option option" where
  "read_discount js v =
     (case v of
        None \<Rightarrow> Some None
      | Some x \<Rightarrow> (if x = [] then Some None else map_option Some (parseFloat js x)))"

definition read_price :: "js_numbers \<Rightarrow> string option \<Rightarrow> money option" where
  "read_price js v = (case v of None \<Rightarrow> None | Some x \<Rightarrow> parseFloat js x)"

definition text_of :: "string option \<Rightarrow> string" where
  "text_of v = (case v of None \<Rightarrow> [] | Some x \<Rightarrow> x)"

text \<open>
  \<^verbatim>\<open>
  if (!req.session.user || req.session.user.role !== 'admin') return res.redirect('/admin-login');
  ... validation ...
  if (errors.length > 0) { req.flash(...); return res.redirect('/admin/products/create'); }
  if (!req.files || req.files.length === 0) { ...; return res.redirect('/admin/products/create'); }
  ... sizes, colors, images ...
  const productData = { name: name.trim(), description: description.trim(),
    price: parseFloat(price),
    discountPrice: discountPrice ? parseFloat(discountPrice) : undefined,
    category, brand, sizes, colors, featured: featured === 'on', ... };
  const savedProduct = await new Product(productData).save();
  res.redirect('/products');
  } catch (error) { ...; res.redirect('/admin/products/create'); }
  \<close>
  The new document's id is chosen by the database and is an input here. A save that the
  database rejects, or whose document is not cast or not valid, ends in the \<^verbatim>\<open>catch\<close>
  block.
\<close>

definition create_product ::
  "js_numbers \<Rightarrow> (product \<Rightarrow> bool) \<Rightarrow> faults \<Rightarrow> store \<Rightarrow> object_id \<Rightarrow> create_request
     \<Rightarrow> create_response \<times> store" where
  "create_product js valid f s new_id req =
     (if \<not> cr_admin req then (RedirectAdminLogin, s)
      else if validation_errors js req \<noteq> [] then (ValidationFailed (validation_errors js req), s)
      else if cr_files req = [] then (NoImages, s)
      else
        (case cast_sizes (process_sizes (cr_body req)) of
           None \<Rightarrow> (CreateFailed, s)
         | Some sizes \<Rightarrow>
        (case read_price js (cr_price req) of
           None \<Rightarrow> (CreateFailed, s)
         | Some price \<Rightarrow>
        (case read_discount js (cr_discountPrice req) of
           None \<Rightarrow> (CreateFailed, s)
         | Some discountPrice \<Rightarrow>
             let productData =
                   \<lparr>p_id = new_id,
                    p_name = trim (text_of (cr_name req)),
                    p_description = trim (text_of (cr_description req)),
                    p_price = price,
                    p_discountPrice = discountPrice,
                    p_category = text_of (cr_category req),
                    p_brand = text_of (cr_brand req),
                    p_sizes = sizes,
                    p_colors = assign_images (process_colors (cr_body req))
                                 (map up_path (cr_files req)),
                    p_featured = (cr_featured req = Some ''on''),
                    p_images = None, p_stock = None, p_quantity = None\<rparr>
             in if f ProductSave \<noteq> None \<or> \<not> valid productData then (CreateFailed, s)
                else (Created new_id, s\<lparr>products := products s @ [productData]\<rparr>)))))"

section \<open>Admin: editing a product\<close>

text \<open>
  \<^verbatim>\<open>
  router.post('/edit/:id', ensureAdmin, upload.array('images', 10), async (req, res) => {
    const product = await Product.findById(req.params.id);
    if (!product) { ...; return res.redirect('/admin/products'); }
    product.name = req.body.name;
    product.description = req.body.description;
    product.price = parseFloat(req.body.price);
    product.discountPrice = req.body.discountPrice ? parseFloat(req.body.discountPrice) : undefined;
    product.category = req.body.category;
    product.brand = req.body.brand;
    product.featured = req.body.featured === 'on';
    if (req.body.sizes && Array.isArray(req.body.sizes)) {
      product.sizes = req.body.sizes.map(size => ({
        size: parseInt(size),
        quantity: parseInt(req.body[`size_${size}_quantity`] || 0) }));
    }
    if (req.body.colors && Array.isArray(req.body.colors)) {
      product.colors = req.body.colors.map(color => ({
        name: color, code: req.body[`color_${color}_code`] || '#000000' }));
    }
    if (req.files && req.files.length > 0) {
      const newImages = req.files.map(file => `/uploads/products/${file.filename}`);
      if (product.colors.length === 0) {
        product.colors.push({ name: 'Default', code: '#000000', images: newImages });
      } else {
        product.colors[0].images = [...(product.colors[0].images || []), ...newImages];
      }
    }
    await product.save();
  \<close>
  A missing text field is stored as the empty string. The quantity key is built from the
  size string as it was sent; a quantity can be \<^verbatim>\<open>NaN\<close>, which the save does not cast.
\<close>

record edit_request =
  er_admin :: bool
  er_name :: "string option"
  er_description :: "string option"
  er_price :: "string option"
  er_discountPrice :: "string option"
  er_category :: "string option"
  er_brand :: "string option"
  er_featured :: "string option"
  er_body :: form
  er_files :: "upload list"

datatype edit_response = AdminRequired | EditNotFound | EditFailed | Updated

record edited_size =
  es_size :: "int option"
  es_quantity :: "int option"

definition edited_entry :: "form \<Rightarrow> string \<Rightarrow> edited_size" where
  "edited_entry body sizeStr =
     \<lparr>es_size = parseInt sizeStr,
      es_quantity =
        (if truthy (body (''size_'' @ sizeStr @ ''_quantity''))
         then parseInt_field (body (''size_'' @ sizeStr @ ''_quantity''))
         else Some 0)\<rparr>"

fun cast_edited :: "edited_size list \<Rightarrow> size_entry list option" where
  "cast_edited [] = Some []"
| "cast_edited (r # rs) =
     (case es_size r of
        None \<Rightarrow> None
      | Some n \<Rightarrow>
          (case es_quantity r of
             None \<Rightarrow> None
           | Some q \<Rightarrow>
               (case cast_edited rs of
                  None \<Rightarrow> None
                | Some es \<Rightarrow> Some (\<lparr>se_size = n, se_quantity = q\<rparr> # es))))"

text \<open>The sizes after the edit; \<open>None\<close> when one of them is not cast.\<close>

definition edit_sizes :: "form \<Rightarrow> size_entry list \<Rightarrow> size_entry list option" where
  "edit_sizes body old =
     (case body ''sizes'' of
        None \<Rightarrow> Some old
      | Some sizesField \<Rightarrow>
          (case sizesField of
             Single v \<Rightarrow> Some old
           | Multi sizesArray \<Rightarrow> cast_edited (map (edited_entry body) sizesArray)))"

definition edit_colors :: "form \<Rightarrow> color list \<Rightarrow> color list" where
  "edit_colors body old =
     (case body ''colors'' of
        None \<Rightarrow> old
      | Some colorsField \<Rightarrow>
          (case colorsField of
             Single v \<Rightarrow> old
           | Multi colorsArray \<Rightarrow>
               map (\<lambda>colorName. \<lparr>col_name = colorName, col_code = color_code body colorName,
                                  col_images = []\<rparr>) colorsArray))"

definition add_images :: "upload list \<Rightarrow> color list \<Rightarrow> color list" where
  "add_images files colors =
     (if files = [] then colors
      else
        let newImages = map (\<lambda>file. ''/uploads/products/'' @ up_filename file) files
        in (case colors of
              [] \<Rightarrow> [\<lparr>col_name = ''Default'', col_code = ''#000000'', col_images = newImages\<rparr>]
            | c # cs \<Rightarrow> c\<lparr>col_images := col_images c @ newImages\<rparr> # cs))"

fun replace_product :: "product \<Rightarrow> product list \<Rightarrow> product list" where
  "replace_product p' [] = []"
| "replace_product p' (p # ps) =
     (if p_id p = p_id p' then p' # ps else p # replace_product p' ps)"

definition edit_product ::
  "js_numbers \<Rightarrow> (product \<Rightarrow> bool) \<Rightarrow> faults \<Rightarrow> store \<Rightarrow> object_id \<Rightarrow> edit_request
     \<Rightarrow> edit_response \<times> store" where
  "edit_product js valid f s pid req =
     (if \<not> er_admin req then (AdminRequired, s)
      else if f ProductFindById \<noteq> None then (EditFailed, s)
      else
        (case findById (products s) pid of
           None \<Rightarrow> (EditNotFound, s)
         | Some product \<Rightarrow>
        (case read_price js (er_price req) of
           None \<Rightarrow> (EditFailed, s)
         | Some price \<Rightarrow>
        (case read_discount js (er_discountPrice req) of
           None \<Rightarrow> (EditFailed, s)
         | Some discountPrice \<Rightarrow>
        (case edit_sizes (er_body req) (p_sizes product) of
           None \<Rightarrow> (EditFailed, s)
         | Some sizes \<Rightarrow>
             let product' = product
                   \<lparr>p_name := text_of (er_name req),
                    p_description := text_of (er_description req),
                    p_price := price,
                    p_discountPrice := discountPrice,
                    p_category := text_of (er_category req),
                    p_brand := text_of (er_brand req),
                    p_featured := (er_featured req = Some ''on''),
                    p_sizes := sizes,
                    p_colors := add_images (er_files req)
                                  (edit_colors (er_body req) (p_colors product))\<rparr>
             in if f ProductSave \<noteq> None \<or> \<not> valid product' then (EditFailed, s)
                else (Updated, s\<lparr>products := replace_product product' (products s)\<rparr>))))))"


section \<open>Products router: the older creation route\<close>

text \<open>
  \<^verbatim>\<open>
  router.post('/admin/create', ensureAdmin, upload.array('images', 5), async (req, res) => {
    try {
      const { name, description, price, discountPrice, category, brand, sizes, colors } = req.body;
      const sizeArray = sizes.split(',').map(size => ({
        size: parseInt(size.trim()),
        quantity: parseInt(req.body[`quantity_${size}`])
      }));
      const colorArray = colors.split(',').map((color, index) => ({
        name: color.trim(),
        code: req.body[`color_code_${index}`],
        images: req.files
          .filter(file => file.fieldname === `color_images_${index}`)
          .map(file => `/uploads/products/${file.filename}`)
      }));
      const product = new Product({ name, description, price, discountPrice, category, brand,
                                    sizes: sizeArray, colors: colorArray });
      await product.save();
      req.flash('success_msg', 'Product created successfully');
      res.redirect('/products');
    } catch (err) { ...; res.redirect('/products/admin/create'); }
  });
  \<close>
  \<^verbatim>\<open>sizes\<close> and \<^verbatim>\<open>colors\<close> must be strings: \<^verbatim>\<open>split\<close> of a missing field or of an array
  throws, and so does \<^verbatim>\<open>filter\<close> of missing \<^verbatim>\<open>req.files\<close>. Every throw ends in the
  \<^verbatim>\<open>catch\<close> block, before anything is saved. The quantity key is built from the size as
  it stands between the commas. No quantity is compared with anything.
\<close>

fun split_comma :: "string \<Rightarrow> string list" where
  "split_comma [] = [[]]"
| "split_comma (c # cs) =
     (if c = CHR '','' then [] # split_comma cs
      else (case split_comma cs of [] \<Rightarrow> [[c]] | w # ws \<Rightarrow> (c # w) # ws))"

record listing_file =
  lf_fieldname :: string
  lf_filename :: string

record listing_request =
  lr_admin :: bool
  lr_name :: "string option"
  lr_description :: "string option"
  lr_price :: "string option"
  lr_discountPrice :: "string option"
  lr_category :: "string option"
  lr_brand :: "string option"
  lr_sizes :: "field option"
  lr_colors :: "field option"
  lr_body :: form
  lr_files :: "listing_file list option"

datatype listing_response = ListingAdminRequired | ListingFailed | ListingCreated object_id

text \<open>A field on which \<^verbatim>\<open>split\<close> can be called: a single string.\<close>

definition as_text :: "field option \<Rightarrow> string option" where
  "as_text fld =
     (case fld of
        None \<Rightarrow> None
      | Some v \<Rightarrow> (case v of Single x \<Rightarrow> Some x | Multi xs \<Rightarrow> None))"

definition listed_entry :: "form \<Rightarrow> string \<Rightarrow> edited_size" where
  "listed_entry body sizeStr =
     \<lparr>es_size = parseInt (trim sizeStr),
      es_quantity = parseInt_field (body (''quantity_'' @ sizeStr))\<rparr>"

text \<open>The sizes handed to \<^verbatim>\<open>save\<close>; \<open>None\<close> when \<^verbatim>\<open>split\<close> throws or a number is not cast.\<close>

definition listing_sizes :: "listing_request \<Rightarrow> size_entry list option" where
  "listing_sizes req =
     (case as_text (lr_sizes req) of
        None \<Rightarrow> None
      | Some sizes \<Rightarrow> cast_edited (map (listed_entry (lr_body req)) (split_comma sizes)))"

definition listed_color :: "form \<Rightarrow> listing_file list \<Rightarrow> nat \<Rightarrow> string \<Rightarrow> color" where
  "listed_color body files index colorStr =
     \<lparr>col_name = trim colorStr,
      col_code = (case body (''color_code_'' @ show_nat index) of
                    None \<Rightarrow> []
                  | Some fld \<Rightarrow> to_string fld),
      col_images =
        map (\<lambda>file. ''/uploads/products/'' @ lf_filename file)
          (filter (\<lambda>file. lf_fieldname file = ''color_images_'' @ show_nat index) files)\<rparr>"

definition listing_colors :: "listing_request \<Rightarrow> color list option" where
  "listing_colors req =
     (case as_text (lr_colors req) of
        None \<Rightarrow> None
      | Some colors \<Rightarrow>
          (case lr_files req of
             None \<Rightarrow> None
           | Some files \<Rightarrow>
               Some (map (\<lambda>(index, colorStr). listed_color (lr_body req) files index colorStr)
                       (enumerate 0 (split_comma colors)))))"

text \<open>
  Modelled from the spec: the Product schema (\<^verbatim>\<open>models/Product\<close>) is missing, and this
  route hands the price fields to it as strings. By the spec a product has a base price,
  a decimal, and an optional discount price: a missing or empty price is not saved, a
  missing or empty discount price is none, and a string that is no number is not cast.
  Reading the number out of the string is left to the function \<open>toNumber\<close> that the route
  receives.
\<close>

definition cast_price :: "(string \<Rightarrow> money option) \<Rightarrow> string option \<Rightarrow> money option" where
  "cast_price toNumber v =
     (case v of None \<Rightarrow> None | Some x \<Rightarrow> (if x = [] then None else toNumber x))"

definition cast_discount ::
  "(string \<Rightarrow> money option) \<Rightarrow> string option \<Rightarrow> money option option" where
  "cast_discount toNumber v =
     (case v of
        None \<Rightarrow> Some None
      | Some x \<Rightarrow> (if x = [] then Some None else map_option Some (toNumber x)))"

definition admin_create ::
  "(string \<Rightarrow> money option) \<Rightarrow> (product \<Rightarrow> bool) \<Rightarrow> faults \<Rightarrow> store \<Rightarrow> object_id
     \<Rightarrow> listing_request \<Rightarrow> listing_response \<times> store" where
  "admin_create toNumber valid f s new_id req =
     (if \<not> lr_admin req then (ListingAdminRequired, s)
      else
        (case listing_sizes req of
           None \<Rightarrow> (ListingFailed, s)
         | Some sizeArray \<Rightarrow>
        (case listing_colors req of
           None \<Rightarrow> (ListingFailed, s)
         | Some colorArray \<Rightarrow>
        (case cast_price toNumber (lr_price req) of
           None \<Rightarrow> (ListingFailed, s)
         | Some price \<Rightarrow>
        (case cast_discount toNumber (lr_discountPrice req) of
           None \<Rightarrow> (ListingFailed, s)
         | Some discountPrice \<Rightarrow>
             let product =
                   \<lparr>p_id = new_id,
                    p_name = text_of (lr_name req),
                    p_description = text_of (lr_description req),
                    p_price = price,
                    p_discountPrice = discountPrice,
                    p_category = text_of (lr_category req),
                    p_brand = text_of (lr_brand req),
                    p_sizes = sizeArray,
                    p_colors = colorArray,
                    p_featured = False,
                    p_images = None, p_stock = None, p_quantity = None\<rparr>
             in if f ProductSave \<noteq> None \<or> \<not> valid product then (ListingFailed, s)
                else (ListingCreated new_id, s\<lparr>products := products s @ [product]\<rparr>))))))"


section \<open>Admin: deleting a product\<close>




section \<open>Dashboard statistics\<close>

subsection \<open>\<^verbatim>\<open>formatTimeAgo\<close>\<close>

text \<open>
  \<^verbatim>\<open>
  function formatTimeAgo(date) {
    if (!date) return 'Recently';
    const now = new Date(); const then = new Date(date);
    const diffMs = now - then;
    const diffMins = Math.floor(diffMs / 60000);
    const diffHours = Math.floor(diffMs / 3600000);
    const diffDays = Math.floor(diffMs / 86400000);
    if (diffMins < 1) return 'Just now';
    if (diffMins < 60) return `${diffMins} minutes ago`;
    if (diffHours < 24) return `${diffHours} hours ago`;
    if (diffDays < 7) return `${diffDays} days ago`;
    return then.toLocaleDateString('en-IN', {...});
  }
  \<close>
  Dates are milliseconds since the epoch. The clock is an input; so is the locale's
  rendering of a date. Integer division rounds down, as \<^verbatim>\<open>Math.floor\<close> does.
\<close>

record clock =
  now :: int
  today :: int
  toLocaleDateString :: "int \<Rightarrow> string"

definition formatTimeAgo :: "clock \<Rightarrow> int option \<Rightarrow> string" where
  "formatTimeAgo clk date =
     (case date of
        None \<Rightarrow> ''Recently''
      | Some thn \<Rightarrow>
          let diffMs = now clk - thn;
              diffMins = diffMs div 60000;
              diffHours = diffMs div 3600000;
              diffDays = diffMs div 86400000
          in if diffMins < 1 then ''Just now''
             else if diffMins < 60 then show_int diffMins @ '' minutes ago''
             else if diffHours < 24 then show_int diffHours @ '' hours ago''
             else if diffDays < 7 then show_int diffDays @ '' days ago''
             else toLocaleDateString clk thn)"

subsection \<open>The queries of \<^verbatim>\<open>getDashboardStats\<close>\<close>

text \<open>
  \<^verbatim>\<open>
  Order.countDocuments({ $or: [ { status: 'pending' }, { orderStatus: 'pending' },
                                { status: 'Pending' } ] })
  Product.countDocuments({ $or: [ { stock: { $lt: 10, $gt: 0 } },
                                  { quantity: { $lt: 10, $gt: 0 } } ] })
  Order.countDocuments({ createdAt: { $gte: today } })    // today: local midnight
  Order.find().sort({ createdAt: -1 }).limit(5).lean()
  User.countDocuments({ createdAt: { $gte: today } })
  Order.aggregate([ { $match: { $or: [ { status: 'completed' }, { status: 'delivered' },
                                       { paymentStatus: 'completed' } ] } },
                    { $group: { _id: null, total: { $sum: '$totalAmount' } } } ])
  \<close>
  A condition on a field that the document lacks does not match. \<^verbatim>\<open>stock\<close> and
  \<^verbatim>\<open>quantity\<close> are top-level paths of the product document, not paths into its
  \<^verbatim>\<open>sizes\<close>. The sort is descending by creation date, documents without one last;
  MongoDB leaves the order among equal dates open, the model fixes one. The
  \<^verbatim>\<open>$group\<close> stage yields no document when nothing matched, and \<^verbatim>\<open>$sum\<close> counts a
  missing amount as 0.
\<close>

definition is_pending :: "order \<Rightarrow> bool" where
  "is_pending ord \<longleftrightarrow>
     o_status ord = Some ''pending'' \<or> o_orderStatus ord = Some ''pending''
     \<or> o_status ord = Some ''Pending''"

definition between_0_10 :: "int option \<Rightarrow> bool" where
  "between_0_10 field = (case field of None \<Rightarrow> False | Some v \<Rightarrow> v < 10 \<and> 0 < v)"

definition low_stock_match :: "product \<Rightarrow> bool" where
  "low_stock_match p \<longleftrightarrow> between_0_10 (p_stock p) \<or> between_0_10 (p_quantity p)"

definition since :: "int \<Rightarrow> int option \<Rightarrow> bool" where
  "since t field = (case field of None \<Rightarrow> False | Some d \<Rightarrow> t \<le> d)"

definition recent_orders :: "order list \<Rightarrow> order list" where
  "recent_orders os = take 5 (rev (sort_key o_createdAt os))"

definition is_completed :: "order \<Rightarrow> bool" where
  "is_completed ord \<longleftrightarrow>
     o_status ord = Some ''completed'' \<or> o_status ord = Some ''delivered''
     \<or> o_paymentStatus ord = Some ''completed''"

definition amount_of :: "order \<Rightarrow> money" where
  "amount_of ord = (case o_totalAmount ord of None \<Rightarrow> 0 | Some a \<Rightarrow> a)"

definition revenue_aggregate :: "order list \<Rightarrow> money list" where
  "revenue_aggregate os =
     (case filter is_completed os of
        [] \<Rightarrow> []
      | m # ms \<Rightarrow> [sum_list (map amount_of (m # ms))])"

text \<open>An awaited query: rejected with the fault's message, or fulfilled with its value.\<close>

definition query :: "faults \<Rightarrow> db_op \<Rightarrow> 'a \<Rightarrow> string + 'a" where
  "query f op v = (case f op of Some err \<Rightarrow> Inl err | None \<Rightarrow> Inr v)"

subsection \<open>\<^verbatim>\<open>getDashboardStats\<close>\<close>

record activity =
  a_title :: string
  a_description :: string
  a_time :: string

record stats =
  totalProducts :: nat
  lowStockItems :: nat
  totalOrders :: nat
  todaysOrders :: nat
  pendingOrders :: nat
  totalRevenue :: money
  avgOrderValue :: int
  totalUsers :: nat
  newUsersToday :: nat
  productChange :: int
  orderChange :: int
  userChange :: int
  revenueChange :: int
  recentActivities :: "activity list"

text \<open>
  \<^verbatim>\<open>
  description: `Order #${order.orderId || order._id.toString().slice(-6)} placed`
  \<close>
\<close>

definition order_activity :: "clock \<Rightarrow> order \<Rightarrow> activity" where
  "order_activity clk ord =
     \<lparr>a_title = ''New Order'',
      a_description = ''Order #''
        @ (case or_else (o_orderId ord) (Some (drop (length (o_id ord) - 6) (o_id ord))) of
             Some ref \<Rightarrow> ref
           | None \<Rightarrow> [])
        @ '' placed'',
      a_time = formatTimeAgo clk (o_createdAt ord)\<rparr>"

definition welcome_activity :: activity where
  "welcome_activity =
     \<lparr>a_title = ''Welcome to Admin Panel'',
      a_description = ''Start managing your store to see activities here'',
      a_time = ''Just now''\<rparr>"

text \<open>
  The part of \<^verbatim>\<open>getDashboardStats\<close> after \<^verbatim>\<open>Promise.all\<close>: the revenue aggregation in
  its own \<^verbatim>\<open>try\<close>/\<^verbatim>\<open>catch\<close>, the average, the activities and the result object.
  \<^verbatim>\<open>
  let totalRevenue = 0;
  try {
    const revenueResult = await Order.aggregate([...]);
    if (revenueResult.length > 0) totalRevenue = revenueResult[0].total || 0;
  } catch (error) { console.log("Revenue calculation skipped:", error.message); }
  let avgOrderValue = 0;
  if (totalOrders > 0 && totalRevenue > 0)
    avgOrderValue = Math.round(totalRevenue / totalOrders);
  ...
  const productChange = 12;
  const orderChange = totalOrders > 100 ? 8 : 15;
  const userChange = newUsers > 0 ? Math.round((newUsers / totalUsers) * 100) : 5;
  const revenueChange = 18;
  \<close>
  Quotients are exact before they are rounded, where JavaScript rounds the double.
\<close>

definition revenue_of :: "faults \<Rightarrow> store \<Rightarrow> money" where
  "revenue_of f s =
     (case query f RevenueAggregate (revenue_aggregate (orders s)) of
        Inl err \<Rightarrow> 0
      | Inr revenueResult \<Rightarrow>
          (case revenueResult of [] \<Rightarrow> 0 | r # _ \<Rightarrow> r))"

definition build_stats ::
  "faults \<Rightarrow> store \<Rightarrow> clock \<Rightarrow> nat \<Rightarrow> nat \<Rightarrow> nat \<Rightarrow> nat \<Rightarrow> nat \<Rightarrow> nat \<Rightarrow> order list \<Rightarrow> nat \<Rightarrow> stats" where
  "build_stats f s clk totalProducts' totalOrders' totalUsers' pendingOrders'
       lowStockProducts todaysOrders' recentOrders newUsers =
     (let totalRevenue' = revenue_of f s;
          avgOrderValue' =
            (if totalOrders' > 0 \<and> totalRevenue' > 0
             then Math_round (totalRevenue' / of_nat totalOrders') else 0);
          activities = map (order_activity clk) recentOrders
      in \<lparr>totalProducts = totalProducts',
          lowStockItems = lowStockProducts,
          totalOrders = totalOrders',
          todaysOrders = todaysOrders',
          pendingOrders = pendingOrders',
          totalRevenue = totalRevenue',
          avgOrderValue = avgOrderValue',
          totalUsers = totalUsers',
          newUsersToday = newUsers,
          productChange = 12,
          orderChange = (if totalOrders' > 100 then 8 else 15),
          userChange =
            (if newUsers > 0 then Math_round (of_nat newUsers / of_nat totalUsers' * 100) else 5),
          revenueChange = 18,
          recentActivities = (if activities = [] then [welcome_activity] else activities)\<rparr>)"

text \<open>
  \<^verbatim>\<open>Promise.all\<close> over the eight queries rejects as soon as one of them rejects, and the
  outer \<^verbatim>\<open>catch\<close> logs and rethrows: the whole call is rejected. When several queries
  reject, the model reports the first in the order of the array.
\<close>

definition getDashboardStats :: "faults \<Rightarrow> store \<Rightarrow> clock \<Rightarrow> string + stats" where
  "getDashboardStats f s clk =
     (case query f ProductCount (length (products s)) of Inl err \<Rightarrow> Inl err | Inr totalProducts' \<Rightarrow>
     (case query f OrderCount (length (orders s)) of Inl err \<Rightarrow> Inl err | Inr totalOrders' \<Rightarrow>
     (case query f UserCount (length (users s)) of Inl err \<Rightarrow> Inl err | Inr totalUsers' \<Rightarrow>
     (case query f PendingCount (length (filter is_pending (orders s))) of
        Inl err \<Rightarrow> Inl err | Inr pendingOrders' \<Rightarrow>
     (case query f LowStockCount (length (filter low_stock_match (products s))) of
        Inl err \<Rightarrow> Inl err | Inr lowStockProducts \<Rightarrow>
     (case query f TodaysOrdersCount
             (length (filter (\<lambda>ord. since (today clk) (o_createdAt ord)) (orders s))) of
        Inl err \<Rightarrow> Inl err | Inr todaysOrders' \<Rightarrow>
     (case query f RecentOrdersFind (recent_orders (orders s)) of
        Inl err \<Rightarrow> Inl err | Inr recentOrders \<Rightarrow>
     (case query f NewUsersCount
             (length (filter (\<lambda>usr. since (today clk) (u_createdAt usr)) (users s))) of
        Inl err \<Rightarrow> Inl err | Inr newUsers \<Rightarrow>
        Inr (build_stats f s clk totalProducts' totalOrders' totalUsers' pendingOrders'
               lowStockProducts todaysOrders' recentOrders newUsers)))))))))"

text \<open>The eight queries that \<^verbatim>\<open>getDashboardStats\<close> hands to \<^verbatim>\<open>Promise.all\<close>.\<close>

definition parallel_queries :: "db_op list" where
  "parallel_queries =
     [ProductCount, OrderCount, UserCount, PendingCount, LowStockCount,
      TodaysOrdersCount, RecentOrdersFind, NewUsersCount]"

text \<open>
  The total stock of a product, as the product page and the quick view compute it:
  \<^verbatim>\<open>product.sizes.reduce((sum, size) => sum + size.quantity, 0)\<close>.
\<close>

definition totalStock :: "product \<Rightarrow> int" where
  "totalStock p = foldl (\<lambda>sum sz. sum + se_quantity sz) 0 (p_sizes p)"

section \<open>Stock, cart view and checkout, from the spec\<close>

text \<open>
  The routers mounted at \<^verbatim>\<open>/cart\<close> and \<^verbatim>\<open>/orders\<close> (\<^verbatim>\<open>routes/cart\<close>,
  \<^verbatim>\<open>routes/orders\<close>) are missing from the sources. The operations of this section are
  written from the spec's sections 4.1, 4.3 and 4.4, on the documents above.
\<close>

datatype checkout_error =
    EmptyCart
  | InsufficientStock object_id int int int

text \<open>
  Modelled from the spec: \<^verbatim>\<open>availableStock(id, size) -> integer\<close>, the quantity of the
  size entry of the product (size values are unique within a product; the first entry is
  read). The spec gives no error for it: an unknown product or size has no stock.
\<close>

fun find_size :: "int \<Rightarrow> size_entry list \<Rightarrow> size_entry option" where
  "find_size sz [] = None"
| "find_size sz (e # es) = (if se_size e = sz then Some e else find_size sz es)"

definition availableStock :: "product list \<Rightarrow> object_id \<Rightarrow> int \<Rightarrow> int" where
  "availableStock ps pid sz =
     (case findById ps pid of
        None \<Rightarrow> 0
      | Some p \<Rightarrow> (case find_size sz (p_sizes p) of None \<Rightarrow> 0 | Some e \<Rightarrow> se_quantity e))"

definition has_size :: "product list \<Rightarrow> object_id \<Rightarrow> int \<Rightarrow> bool" where
  "has_size ps pid sz =
     (case findById ps pid of None \<Rightarrow> False | Some p \<Rightarrow> find_size sz (p_sizes p) \<noteq> None)"

text \<open>
  Modelled from the spec: \<^verbatim>\<open>decrementStock(id, size, amount) -> success |
  InsufficientStock\<close>, "persisted stock reduction; never goes below zero - if the requested
  amount exceeds available quantity the call fails and no partial decrement occurs". The
  error carries product, size, requested and available, as in section 4.4.
\<close>

fun decrement_entry :: "int \<Rightarrow> int \<Rightarrow> size_entry list \<Rightarrow> size_entry list" where
  "decrement_entry sz amount [] = []"
| "decrement_entry sz amount (e # es) =
     (if se_size e = sz then e\<lparr>se_quantity := se_quantity e - amount\<rparr> # es
      else e # decrement_entry sz amount es)"

fun decrement_product :: "object_id \<Rightarrow> int \<Rightarrow> int \<Rightarrow> product list \<Rightarrow> product list" where
  "decrement_product pid sz amount [] = []"
| "decrement_product pid sz amount (p # ps) =
     (if p_id p = pid then p\<lparr>p_sizes := decrement_entry sz amount (p_sizes p)\<rparr> # ps
      else p # decrement_product pid sz amount ps)"

definition decrementStock ::
  "store \<Rightarrow> object_id \<Rightarrow> int \<Rightarrow> int \<Rightarrow> (checkout_error + unit) \<times> store" where
  "decrementStock s pid sz amount =
     (if availableStock (products s) pid sz < amount
      then (Inl (InsufficientStock pid sz amount (availableStock (products s) pid sz)), s)
      else (Inr (), s\<lparr>products := decrement_product pid sz amount (products s)\<rparr>))"

text \<open>
  Modelled from the spec: the derived values of a cart, "line subtotal = unit price x
  quantity (using discounted price if present), cart total = sum of line subtotals, cart
  count = sum of quantities", and \<^verbatim>\<open>view(userId)\<close>, which "returns the cart with all
  derived totals computed fresh from snapshot prices, never live prices". A user without a
  cart sees no lines.
\<close>

definition line_unit_price :: "cart_item \<Rightarrow> money" where
  "line_unit_price l = (case ci_discountedPrice l of None \<Rightarrow> ci_price l | Some d \<Rightarrow> d)"

definition line_subtotal :: "cart_item \<Rightarrow> money" where
  "line_subtotal l = line_unit_price l * of_int (ci_quantity l)"

record cart_view =
  v_lines :: "cart_item list"
  v_subtotals :: "money list"
  v_total :: money
  v_count :: int

definition view :: "store \<Rightarrow> object_id \<Rightarrow> cart_view" where
  "view s uid =
     \<lparr>v_lines = cart_lines s uid,
      v_subtotals = map line_subtotal (cart_lines s uid),
      v_total = sum_list (map line_subtotal (cart_lines s uid)),
      v_count = sum_list (map ci_quantity (cart_lines s uid))\<rparr>"

text \<open>
  Modelled from the spec: \<^verbatim>\<open>checkout(userId) -> Order | CheckoutError\<close>, section 4.4.
  Step 1 loads the cart and fails with \<^verbatim>\<open>EmptyCart\<close> if it has no lines. Step 2
  verifies every line, in cart order, against the current stock and aborts with the
  \<^verbatim>\<open>InsufficientStock\<close> of the first line that fails. Step 3 decrements the stock for
  every line with \<^verbatim>\<open>decrementStock\<close> and builds the order from the lines and the cart
  total. Step 4 persists the order and clears the cart. A failure of a decrement in step
  3 aborts the checkout like one of step 2: by section 7 the reconciler never leaves
  partial state. The order's id and creation time are inputs; a new order is pending and
  its lines carry the unit price that the total was computed from.
\<close>

definition line_in_stock :: "product list \<Rightarrow> cart_item \<Rightarrow> bool" where
  "line_in_stock ps l \<longleftrightarrow> ci_quantity l \<le> availableStock ps (ci_product l) (ci_size l)"

definition line_shortfall :: "product list \<Rightarrow> cart_item \<Rightarrow> checkout_error" where
  "line_shortfall ps l =
     InsufficientStock (ci_product l) (ci_size l) (ci_quantity l)
       (availableStock ps (ci_product l) (ci_size l))"

fun verify_lines :: "product list \<Rightarrow> cart_item list \<Rightarrow> checkout_error option" where
  "verify_lines ps [] = None"
| "verify_lines ps (l # ls) =
     (if line_in_stock ps l then verify_lines ps ls else Some (line_shortfall ps l))"

fun decrement_lines :: "store \<Rightarrow> cart_item list \<Rightarrow> checkout_error + store" where
  "decrement_lines s [] = Inr s"
| "decrement_lines s (l # ls) =
     (case fst (decrementStock s (ci_product l) (ci_size l) (ci_quantity l)) of
        Inl err \<Rightarrow> Inl err
      | Inr done \<Rightarrow>
          decrement_lines (snd (decrementStock s (ci_product l) (ci_size l) (ci_quantity l))) ls)"

definition order_line :: "cart_item \<Rightarrow> order_item" where
  "order_line l =
     \<lparr>oi_product = ci_product l, oi_name = ci_name l, oi_price = line_unit_price l,
      oi_quantity = ci_quantity l, oi_size = ci_size l, oi_color = ci_color l\<rparr>"

definition new_order :: "object_id \<Rightarrow> int \<Rightarrow> object_id \<Rightarrow> cart_item list \<Rightarrow> order" where
  "new_order oid created uid ls =
     \<lparr>o_id = oid, o_orderId = None, o_user = uid, o_items = map order_line ls,
      o_status = Some ''pending'', o_orderStatus = None, o_paymentStatus = Some ''pending'',
      o_totalAmount = Some (sum_list (map line_subtotal ls)), o_createdAt = Some created\<rparr>"

definition checkout ::
  "store \<Rightarrow> object_id \<Rightarrow> int \<Rightarrow> object_id \<Rightarrow> (checkout_error + order) \<times> store" where
  "checkout s oid created uid =
     (case carts s uid of
        None \<Rightarrow> (Inl EmptyCart, s)
      | Some cart \<Rightarrow>
          if c_items cart = [] then (Inl EmptyCart, s)
          else
            (case verify_lines (products s) (c_items cart) of
               Some err \<Rightarrow> (Inl err, s)
             | None \<Rightarrow>
                 (case decrement_lines s (c_items cart) of
                    Inl err \<Rightarrow> (Inl err, s)
                  | Inr s1 \<Rightarrow>
                      (Inr (new_order oid created uid (c_items cart)),
                       s1\<lparr>orders := orders s1 @ [new_order oid created uid (c_items cart)],
                          carts := (carts s1)(uid \<mapsto> cart\<lparr>c_items := []\<rparr>)\<rparr>))))"

text \<open>
  What the lines of a cart ask of one (product, size) together, and the stock invariant:
  no size entry of the catalog has a negative quantity.
\<close>

definition demand :: "cart_item list \<Rightarrow> object_id \<Rightarrow> int \<Rightarrow> int" where
  "demand ls pid sz =
     sum_list (map ci_quantity (filter (\<lambda>l. ci_product l = pid \<and> ci_size l = sz) ls))"

definition demand_in_stock :: "product list \<Rightarrow> cart_item list \<Rightarrow> cart_item \<Rightarrow> bool" where
  "demand_in_stock ps ls l \<longleftrightarrow>
     demand ls (ci_product l) (ci_size l) \<le> availableStock ps (ci_product l) (ci_size l)"



text \<open>
  Two states that differ only in product price fields: the same carts, orders and users,
  and catalogs that agree product by product once the prices are set aside.
\<close>

definition same_but_prices :: "product \<Rightarrow> product \<Rightarrow> bool" where
  "same_but_prices p q \<longleftrightarrow> q = p\<lparr>p_price := p_price q, p_discountPrice := p_discountPrice q\<rparr>"

definition differ_only_in_prices :: "store \<Rightarrow> store \<Rightarrow> bool" where
  "differ_only_in_prices s t \<longleftrightarrow>
     carts t = carts s \<and> orders t = orders s \<and> users t = users s
     \<and> list_all2 same_but_prices (products s) (products t)"

section \<open>Worked examples\<close>

text \<open>
  The product of the spec's examples: size 9 with quantity 3, base price 1299, discount
  price 899; a store that holds it and nothing else; a clock.
\<close>

definition example_product :: product where
  "example_product =
     \<lparr>p_id = ''p1'', p_name = ''Runner'', p_description = ''Running shoe'',
      p_price = 1299, p_discountPrice = Some 899, p_category = ''sports'',
      p_brand = ''Campus'', p_sizes = [\<lparr>se_size = 9, se_quantity = 3\<rparr>],
      p_colors = [\<lparr>col_name = ''Black'', col_code = ''#000000'', col_images = [''a.jpg'']\<rparr>],
      p_featured = False, p_images = None, p_stock = None, p_quantity = None\<rparr>"

definition example_store :: store where
  "example_store = \<lparr>products = [example_product], carts = Map.empty, orders = [], users = []\<rparr>"

definition example_clock :: clock where
  "example_clock = \<lparr>now = 90000000, today = 86400000, toLocaleDateString = (\<lambda>_. ''1 Jan 1970'')\<rparr>"

definition paid_order :: "object_id \<Rightarrow> money \<Rightarrow> order" where
  "paid_order oid amount =
     \<lparr>o_id = oid, o_orderId = None, o_user = ''u1'', o_items = [],
      o_status = Some ''completed'', o_orderStatus = None, o_paymentStatus = None,
      o_totalAmount = Some amount, o_createdAt = Some 86500000\<rparr>"

definition example_orders :: store where
  "example_orders =
     example_store\<lparr>orders := [paid_order ''64a1b2c3d4e5f60718293a4b'' 50,
                               paid_order ''64a1b2c3d4e5f60718293a4c'' 30,
                               paid_order ''64a1b2c3d4e5f60718293a4d'' 20]\<rparr>"

text \<open>A creation request without any size field, and a reader of plain decimal numbers.\<close>

definition example_numbers :: js_numbers where
  "example_numbers =
     \<lparr>isNaN = (\<lambda>v. parseInt v = None),
      parseFloat = (\<lambda>v. map_option of_int (parseInt v))\<rparr>"

text \<open>
  Validators as the spec's data model has them: quantities and prices are not negative.
\<close>

definition example_valid :: "product \<Rightarrow> bool" where
  "example_valid p \<longleftrightarrow>
     0 \<le> p_price p
     \<and> (case p_discountPrice p of None \<Rightarrow> True | Some d \<Rightarrow> 0 \<le> d)
     \<and> list_all (\<lambda>e. 0 \<le> se_quantity e) (p_sizes p)"

definition example_request :: create_request where
  "example_request =
     \<lparr>cr_admin = True, cr_name = Some ''Runner'', cr_description = Some ''Running shoe'',
      cr_price = Some ''1299'', cr_discountPrice = Some ''899'', cr_category = Some ''sports'',
      cr_brand = Some ''Campus'', cr_featured = None, cr_body = Map.empty,
      cr_files = [\<lparr>up_path = ''https://img/a.jpg'', up_filename = ''a''\<rparr>]\<rparr>"

text \<open>
  Carts of user \<^verbatim>\<open>u1\<close> over the example catalog: one line of the example product in
  size 9, and two lines of that size in two colors.
\<close>

definition cart_of :: "int \<Rightarrow> store" where
  "cart_of q =
     example_store\<lparr>carts := [''u1'' \<mapsto>
       \<lparr>c_user = ''u1'', c_items = [new_item example_product q 9 ''Black'']\<rparr>]\<rparr>"

definition two_colors :: store where
  "two_colors =
     example_store\<lparr>carts := [''u1'' \<mapsto>
       \<lparr>c_user = ''u1'', c_items = [new_item example_product 2 9 ''Black'',
                                   new_item example_product 2 9 ''White'']\<rparr>]\<rparr>"

text \<open>The same store after the base price went up to 1500 and the discount was dropped.\<close>

definition repriced :: "store \<Rightarrow> store" where
  "repriced s = s\<lparr>products := map (\<lambda>p. p\<lparr>p_price := 1500, p_discountPrice := None\<rparr>) (products s)\<rparr>"

definition example_edit :: edit_request where
  "example_edit =
     \<lparr>er_admin = True, er_name = Some ''Runner'', er_description = Some ''Running shoe'',
      er_price = Some ''1500'', er_discountPrice = None, er_category = Some ''sports'',
      er_brand = Some ''Campus'', er_featured = None,
      er_body = [''sizes'' \<mapsto> Multi [''9''], ''size_9_quantity'' \<mapsto> Single ''7''],
      er_files = []\<rparr>"

text \<open>
  A schema without validators; an edit that sets the quantity of size 9 to -4; a request
  to the older creation route for sizes 8 and 9, and the same with -2 pairs of size 9.
\<close>

definition no_validators :: "product \<Rightarrow> bool" where
  "no_validators p = True"


definition example_listing :: listing_request where
  "example_listing =
     \<lparr>lr_admin = True, lr_name = Some ''Walker'', lr_description = Some ''Walking shoe'',
      lr_price = Some ''999'', lr_discountPrice = None, lr_category = Some ''loafers'',
      lr_brand = Some ''Bata'', lr_sizes = Some (Single ''8,9''), lr_colors = Some (Single ''Brown''),
      lr_body = [''quantity_8'' \<mapsto> Single ''4'', ''quantity_9'' \<mapsto> Single ''2''],
      lr_files = Some []\<rparr>"

definition negative_listing :: listing_request where
  "negative_listing =
     example_listing\<lparr>lr_body := [''quantity_8'' \<mapsto> Single ''4'', ''quantity_9'' \<mapsto> Single ''-2'']\<rparr>"

definition example_toNumber :: "string \<Rightarrow> money option" where
  "example_toNumber v = map_option of_int (parseInt v)"

section \<open>Properties\<close>

lemma foldl_quantity_sum:
  "foldl (\<lambda>sum item. sum + ci_quantity item) a items = a + sum_list (map ci_quantity items)"
  by (induction items arbitrary: a) simp_all

lemma cart_items_count_sum: "cart_items_count items = sum_list (map ci_quantity items)"
  by (simp add: cart_items_count_def foldl_quantity_sum)

text \<open>
  C8. For every user the cart count is the sum of the quantities of the lines of that
  user's cart (when the cart query is answered), and it is 0, never an error, when the
  user has no cart, whatever the database does.
\<close>

theorem C8_cart_count:
  "cart_count no_faults s (Some uid) =
     (case carts s uid of None \<Rightarrow> 0 | Some cart \<Rightarrow> sum_list (map ci_quantity (c_items cart)))
   \<and> (carts s uid = None \<longrightarrow> cart_count f s (Some uid) = 0)"
  by (simp add: cart_count_def no_faults_def cart_items_count_sum split: option.splits)

theorem C8_cart_count_witness:
  "carts \<lparr>products = [], carts = Map.empty, orders = [], users = []\<rparr> ''u1'' = None
   \<and> cart_count (\<lambda>_. Some ''database down'')
        \<lparr>products = [], carts = Map.empty, orders = [], users = []\<rparr> (Some ''u1'') = 0"
  using C8_cart_count [of "\<lparr>products = [], carts = Map.empty, orders = [], users = []\<rparr>"
      "''u1''" "\<lambda>_. Some ''database down''"]
  by simp

lemma findIndex_None: "\<forall>x \<in> set xs. \<not> P x \<Longrightarrow> findIndex P xs = None"
  by (induction xs) auto

lemma findIndex_append_last:
  "\<forall>x \<in> set xs. \<not> P x \<Longrightarrow> P y \<Longrightarrow> findIndex P (xs @ [y]) = Some (length xs)"
  by (induction xs) auto

lemma findById_id: "findById ps pid = Some p \<Longrightarrow> p_id p = pid"
  by (induction ps) (auto split: if_splits)

lemma add_to_items_fresh:
  "\<forall>item \<in> set items. \<not> same_key (p_id p) sz col item \<Longrightarrow>
   add_to_items p q sz col items = items @ [new_item p q sz col]"
  by (simp add: add_to_items_def findIndex_None)

lemma same_key_new_item: "same_key (p_id p) sz col (new_item p q sz col)"
  by (simp add: same_key_def new_item_def)

lemma add_to_items_again:
  "\<forall>item \<in> set items. \<not> same_key (p_id p) sz col item \<Longrightarrow>
   add_to_items p q2 sz col (items @ [new_item p q1 sz col]) = items @ [new_item p (q1 + q2) sz col]"
  by (simp add: add_to_items_def findIndex_append_last same_key_new_item) (simp add: new_item_def)

lemma cart_lines_after_add:
  "findById (products s) pid = Some p \<Longrightarrow>
   cart_lines (snd (addItem no_faults s uid pid \<lparr>b_quantity = Some q, b_size = sz, b_color = col\<rparr>)) uid
     = add_to_items p q sz col (cart_lines s uid)"
  by (simp add: addItem_def no_faults_def cart_lines_def Let_def split: option.splits)

lemma products_after_add:
  "products (snd (addItem f s uid pid body)) = products s"
  by (simp add: addItem_def Let_def split: option.splits)

text \<open>
  C3. With the product in the catalog and a working database: when the user's cart holds
  no line with the key (product, size, color), adding that key with quantity \<open>q1\<close>
  appends one new line, and adding the same key again with \<open>q2\<close> leaves exactly one
  line for the key, with quantity \<open>q1 + q2\<close>; the other lines are untouched.
\<close>

theorem C3_add_same_key_accumulates:
  assumes found: "findById (products s) pid = Some p"
    and fresh: "\<forall>item \<in> set (cart_lines s uid). \<not> same_key pid sz col item"
  shows "cart_lines (snd (addItem no_faults s uid pid \<lparr>b_quantity = Some q1, b_size = sz, b_color = col\<rparr>)) uid
           = cart_lines s uid @ [new_item p q1 sz col]
       \<and> cart_lines (snd (addItem no_faults
             (snd (addItem no_faults s uid pid \<lparr>b_quantity = Some q1, b_size = sz, b_color = col\<rparr>))
             uid pid \<lparr>b_quantity = Some q2, b_size = sz, b_color = col\<rparr>)) uid
           = cart_lines s uid @ [new_item p (q1 + q2) sz col]
       \<and> length (filter (same_key pid sz col) (cart_lines (snd (addItem no_faults
             (snd (addItem no_faults s uid pid \<lparr>b_quantity = Some q1, b_size = sz, b_color = col\<rparr>))
             uid pid \<lparr>b_quantity = Some q2, b_size = sz, b_color = col\<rparr>)) uid)) = 1"
proof -
  let ?b1 = "\<lparr>b_quantity = Some q1, b_size = sz, b_color = col\<rparr>"
  let ?b2 = "\<lparr>b_quantity = Some q2, b_size = sz, b_color = col\<rparr>"
  let ?s1 = "snd (addItem no_faults s uid pid ?b1)"
  let ?s2 = "snd (addItem no_faults ?s1 uid pid ?b2)"
  have pid: "p_id p = pid" using found by (rule findById_id)
  have fresh': "\<forall>item \<in> set (cart_lines s uid). \<not> same_key (p_id p) sz col item"
    using fresh pid by simp
  have one: "cart_lines ?s1 uid = cart_lines s uid @ [new_item p q1 sz col]"
    using found fresh' by (simp add: cart_lines_after_add add_to_items_fresh)
  have found1: "findById (products ?s1) pid = Some p"
    using found by (simp add: products_after_add)
  have two: "cart_lines ?s2 uid = cart_lines s uid @ [new_item p (q1 + q2) sz col]"
    using fresh' by (simp add: cart_lines_after_add [OF found1] one add_to_items_again)
  have "filter (same_key pid sz col) (cart_lines s uid) = []"
    using fresh by (simp add: filter_empty_conv)
  then have three: "length (filter (same_key pid sz col) (cart_lines ?s2 uid)) = 1"
    using same_key_new_item [of p sz col "q1 + q2"] pid by (simp add: two)
  from one two three show ?thesis by blast
qed

theorem C3_add_same_key_accumulates_witness:
  "cart_lines (snd (addItem no_faults
       (snd (addItem no_faults example_store ''u1'' ''p1''
               \<lparr>b_quantity = Some 2, b_size = 9, b_color = ''Black''\<rparr>))
       ''u1'' ''p1'' \<lparr>b_quantity = Some 2, b_size = 9, b_color = ''Black''\<rparr>)) ''u1''
     = [new_item example_product 4 9 ''Black'']"
  using C3_add_same_key_accumulates [of example_store "''p1''" example_product "''u1''" 9 "''Black''" 2 2]
  by (simp add: example_store_def example_product_def cart_lines_def)

text \<open>
  C4, as the code has it. A new cart line snapshots the product's base price as its
  \<open>price\<close> and the product's discount price, present or not, as its \<open>discountedPrice\<close>;
  the effective price read off the two snapshot fields is the product's effective price.
\<close>

theorem C4_snapshot_prices:
  assumes found: "findById (products s) pid = Some p"
    and fresh: "\<forall>item \<in> set (cart_lines s uid). \<not> same_key pid sz col item"
  shows "ci_price (last (cart_lines (snd (addItem no_faults s uid pid
              \<lparr>b_quantity = Some q, b_size = sz, b_color = col\<rparr>)) uid)) = p_price p
       \<and> ci_discountedPrice (last (cart_lines (snd (addItem no_faults s uid pid
              \<lparr>b_quantity = Some q, b_size = sz, b_color = col\<rparr>)) uid)) = p_discountPrice p
       \<and> effectivePrice
            (ci_price (last (cart_lines (snd (addItem no_faults s uid pid
              \<lparr>b_quantity = Some q, b_size = sz, b_color = col\<rparr>)) uid)))
            (ci_discountedPrice (last (cart_lines (snd (addItem no_faults s uid pid
              \<lparr>b_quantity = Some q, b_size = sz, b_color = col\<rparr>)) uid)))
           = effectivePrice (p_price p) (p_discountPrice p)"
proof -
  have "p_id p = pid" using found by (rule findById_id)
  with fresh have "\<forall>item \<in> set (cart_lines s uid). \<not> same_key (p_id p) sz col item"
    by simp
  then have "cart_lines (snd (addItem no_faults s uid pid
        \<lparr>b_quantity = Some q, b_size = sz, b_color = col\<rparr>)) uid
      = cart_lines s uid @ [new_item p q sz col]"
    using found by (simp add: cart_lines_after_add add_to_items_fresh)
  then show ?thesis by (simp add: new_item_def)
qed

theorem C4_snapshot_prices_witness:
  "ci_price (last (cart_lines (snd (addItem no_faults example_store ''u1'' ''p1''
        \<lparr>b_quantity = Some 2, b_size = 9, b_color = ''Black''\<rparr>)) ''u1'')) = 1299
   \<and> ci_discountedPrice (last (cart_lines (snd (addItem no_faults example_store ''u1'' ''p1''
        \<lparr>b_quantity = Some 2, b_size = 9, b_color = ''Black''\<rparr>)) ''u1'')) = Some 899"
  using C4_snapshot_prices [of example_store "''p1''" example_product "''u1''" 9 "''Black''" 2]
  by (simp add: example_store_def example_product_def cart_lines_def)

text \<open>
  The \<open>price\<close> captured for the example product is its base price 1299, while its
  effective price is the discount price 899.
\<close>

theorem C4_unit_price_counterexample:
  "ci_price (last (cart_lines (snd (addItem no_faults example_store ''u1'' ''p1''
        \<lparr>b_quantity = Some 2, b_size = 9, b_color = ''Black''\<rparr>)) ''u1''))
     \<noteq> effectivePrice (p_price example_product) (p_discountPrice example_product)"
  by (simp add: addItem_def no_faults_def example_store_def example_product_def cart_lines_def
      add_to_items_def new_item_def effectivePrice_def Let_def)

lemma effectivePrice_examples:
  "effectivePrice 1299 (Some 899) = 899 \<and> effectivePrice 1299 None = 1299"
  by (simp add: effectivePrice_def)


lemma getDashboardStats_ok:
  assumes "\<forall>op \<in> set parallel_queries. f op = None"
  shows "getDashboardStats f s clk =
     Inr (build_stats f s clk (length (products s)) (length (orders s)) (length (users s))
            (length (filter is_pending (orders s)))
            (length (filter low_stock_match (products s)))
            (length (filter (\<lambda>ord. since (today clk) (o_createdAt ord)) (orders s)))
            (recent_orders (orders s))
            (length (filter (\<lambda>usr. since (today clk) (u_createdAt usr)) (users s))))"
  using assms by (simp add: getDashboardStats_def query_def parallel_queries_def)

lemma getDashboardStats_rejected:
  assumes "op \<in> set parallel_queries" and "f op \<noteq> None"
  shows "isl (getDashboardStats f s clk)"
  using assms
  by (auto simp add: getDashboardStats_def query_def parallel_queries_def split: option.splits)

lemma revenue_of_no_orders: "orders s = [] \<Longrightarrow> revenue_of f s = 0"
  by (simp add: revenue_of_def query_def revenue_aggregate_def split: option.splits)

lemma revenue_of_sum:
  "f RevenueAggregate = None \<Longrightarrow>
   revenue_of f s = sum_list (map amount_of (filter is_completed (orders s)))"
  by (simp add: revenue_of_def query_def revenue_aggregate_def split: list.splits)

lemma revenue_of_rejected: "f RevenueAggregate = Some err \<Longrightarrow> revenue_of f s = 0"
  by (simp add: revenue_of_def query_def)

lemma Math_round_33: "Math_round (100 / 3) = 33"
  by (simp add: Math_round_def floor_eq_iff)

text \<open>
  C6, as the code has it. When the eight parallel queries are answered, the statistics are
  returned; the revenue is the sum of the amounts of the completed orders (0 when the
  aggregation is rejected); the average order value is revenue divided by the number of
  all orders, rounded to the nearest integer, when both are positive, and 0 otherwise;
  without orders revenue and average are 0.
\<close>

theorem C6_average_order_value:
  assumes "\<forall>op \<in> set parallel_queries. f op = None"
  shows "\<exists>st. getDashboardStats f s clk = Inr st
     \<and> totalOrders st = length (orders s)
     \<and> (f RevenueAggregate = None \<longrightarrow>
          totalRevenue st = sum_list (map amount_of (filter is_completed (orders s))))
     \<and> avgOrderValue st =
          (if totalOrders st > 0 \<and> totalRevenue st > 0
           then \<lfloor>totalRevenue st / of_nat (totalOrders st) + 1 / 2\<rfloor> else 0)
     \<and> (orders s = [] \<longrightarrow> totalRevenue st = 0 \<and> avgOrderValue st = 0)"
  using assms
  by (simp add: getDashboardStats_ok build_stats_def Let_def Math_round_def
      revenue_of_no_orders revenue_of_sum)

theorem C6_average_order_value_witness:
  "\<exists>st. getDashboardStats no_faults example_orders example_clock = Inr st
     \<and> totalOrders st = 3 \<and> totalRevenue st = 100 \<and> avgOrderValue st = 33"
  using C6_average_order_value [of no_faults example_orders example_clock]
  by (auto simp add: no_faults_def parallel_queries_def example_orders_def example_store_def
      paid_order_def amount_of_def is_completed_def floor_eq_iff)

text \<open>
  Three completed orders of 50, 30 and 20: the average reported is 33, not 100 / 3.
\<close>

theorem C6_average_not_quotient_counterexample:
  "\<not> isl (getDashboardStats no_faults example_orders example_clock)
   \<and> of_int (avgOrderValue (projr (getDashboardStats no_faults example_orders example_clock)))
       \<noteq> totalRevenue (projr (getDashboardStats no_faults example_orders example_clock))
           / of_nat (totalOrders (projr (getDashboardStats no_faults example_orders example_clock)))"
  by (simp add: getDashboardStats_ok no_faults_def parallel_queries_def build_stats_def Let_def
      revenue_of_sum Math_round_33
      example_orders_def example_store_def paid_order_def amount_of_def is_completed_def)

text \<open>
  C7, as the code has it. Only the revenue aggregation has a safe default: when it is
  rejected, revenue and average become 0 and every other field is what it is without the
  fault. When one of the eight parallel queries is rejected, the whole call is rejected.
\<close>

theorem C7_only_revenue_is_tolerated:
  "((\<forall>op \<in> set parallel_queries. f op = None) \<longrightarrow>
      (\<exists>st. getDashboardStats (f(RevenueAggregate := None)) s clk = Inr st
         \<and> getDashboardStats (f(RevenueAggregate := Some err)) s clk
             = Inr (st\<lparr>totalRevenue := 0, avgOrderValue := 0\<rparr>)))
   \<and> ((\<exists>op \<in> set parallel_queries. f op \<noteq> None) \<longrightarrow> isl (getDashboardStats f s clk))"
proof (intro conjI impI)
  assume ok: "\<forall>op \<in> set parallel_queries. f op = None"
  have ok1: "\<forall>op \<in> set parallel_queries. (f(RevenueAggregate := None)) op = None"
    using ok by (simp add: parallel_queries_def)
  have ok2: "\<forall>op \<in> set parallel_queries. (f(RevenueAggregate := Some err)) op = None"
    using ok by (simp add: parallel_queries_def)
  show "\<exists>st. getDashboardStats (f(RevenueAggregate := None)) s clk = Inr st
         \<and> getDashboardStats (f(RevenueAggregate := Some err)) s clk
             = Inr (st\<lparr>totalRevenue := 0, avgOrderValue := 0\<rparr>)"
    by (simp add: getDashboardStats_ok [OF ok1] getDashboardStats_ok [OF ok2]
        build_stats_def Let_def revenue_of_rejected)
next
  assume "\<exists>op \<in> set parallel_queries. f op \<noteq> None"
  then show "isl (getDashboardStats f s clk)"
    by (blast intro: getDashboardStats_rejected)
qed

theorem C7_only_revenue_is_tolerated_witness:
  "(\<exists>st. getDashboardStats no_faults example_orders example_clock = Inr st
      \<and> getDashboardStats (no_faults(RevenueAggregate := Some ''timeout'')) example_orders example_clock
          = Inr (st\<lparr>totalRevenue := 0, avgOrderValue := 0\<rparr>))
   \<and> isl (getDashboardStats (no_faults(LowStockCount := Some ''timeout'')) example_orders example_clock)"
  using C7_only_revenue_is_tolerated [where f = no_faults and err = "''timeout''"
      and s = example_orders and clk = example_clock]
    C7_only_revenue_is_tolerated [where f = "no_faults(LowStockCount := Some ''timeout'')"
      and err = "''timeout''" and s = example_orders and clk = example_clock]
  by (simp add: no_faults_def parallel_queries_def fun_upd_def)

text \<open>
  A rejected product count alone makes \<^verbatim>\<open>getDashboardStats\<close> reject: no field is returned.
\<close>

theorem C7_one_failed_count_fails_all_counterexample:
  "getDashboardStats (no_faults(ProductCount := Some ''connection lost'')) example_store example_clock
     = Inl ''connection lost''"
  by (simp add: getDashboardStats_def query_def)

lemma totalStock_sum: "totalStock p = sum_list (map se_quantity (p_sizes p))"
proof -
  have aux: "foldl (\<lambda>sum sz. sum + se_quantity sz) a xs = a + sum_list (map se_quantity xs)" for a xs
    by (induction xs arbitrary: a) simp_all
  show ?thesis by (simp add: totalStock_def aux)
qed

text \<open>
  C5 at the example catalog: its one product has total stock 3, between 1 and 10, and
  neither a \<^verbatim>\<open>stock\<close> nor a \<^verbatim>\<open>quantity\<close> field; \<open>lowStockItems\<close> is 0 where the
  spec counts 1.
\<close>

theorem C5_low_stock_ignores_sizes:
  "getDashboardStats no_faults example_store example_clock
     = Inr (projr (getDashboardStats no_faults example_store example_clock))
   \<and> lowStockItems (projr (getDashboardStats no_faults example_store example_clock)) = 0
   \<and> totalStock example_product = 3
   \<and> length (filter (\<lambda>p. 1 \<le> totalStock p \<and> totalStock p \<le> 10) (products example_store)) = 1"
  by (simp add: getDashboardStats_ok no_faults_def parallel_queries_def build_stats_def Let_def
      example_store_def example_product_def low_stock_match_def between_0_10_def totalStock_def)

lemma checkbox_entry_positive: "e \<in> set (checkbox_entry body v) \<Longrightarrow> rs_quantity e > 0"
  by (auto simp add: checkbox_entry_def Let_def split: if_splits)

lemma sizes_from_checkboxes_positive:
  "e \<in> set (sizes_from_checkboxes body) \<Longrightarrow> rs_quantity e > 0"
  by (auto simp add: sizes_from_checkboxes_def dest: checkbox_entry_positive
      split: option.splits if_splits)

lemma field_entry_positive: "e \<in> set (field_entry body n) \<Longrightarrow> rs_quantity e > 0"
  by (auto simp add: field_entry_def positive_quantity_def split: option.splits if_splits)

lemma sizes_from_fields_positive: "e \<in> set (sizes_from_fields body) \<Longrightarrow> rs_quantity e > 0"
  by (auto simp add: sizes_from_fields_def dest: field_entry_positive)

lemma process_sizes_positive: "e \<in> set (process_sizes body) \<Longrightarrow> rs_quantity e > 0"
  by (auto simp add: process_sizes_def Let_def split: if_splits
      dest: sizes_from_checkboxes_positive sizes_from_fields_positive)

lemma process_sizes_nonempty: "process_sizes body \<noteq> []"
  by (simp add: process_sizes_def Let_def)

lemma sizes_from_checkboxes_none: "\<not> truthy (body ''sizes'') \<Longrightarrow> sizes_from_checkboxes body = []"
  by (auto simp add: sizes_from_checkboxes_def split: option.splits)

lemma sizes_from_fields_none:
  "\<forall>n \<in> set [6..12]. \<not> positive_quantity body n \<Longrightarrow> sizes_from_fields body = []"
  by (simp add: sizes_from_fields_def field_entry_def)

lemma process_sizes_default:
  "\<not> truthy (body ''sizes'') \<Longrightarrow> \<forall>n \<in> set [6..12]. \<not> positive_quantity body n \<Longrightarrow>
   process_sizes body = [\<lparr>rs_size = Some 9, rs_quantity = 10\<rparr>]"
  by (simp add: process_sizes_def sizes_from_checkboxes_none sizes_from_fields_none)

lemma cast_sizes_quantities:
  "cast_sizes rs = Some es \<Longrightarrow> map se_quantity es = map rs_quantity rs"
  by (induction rs arbitrary: es) (auto split: option.splits)

lemma sum_list_positive: "xs \<noteq> [] \<Longrightarrow> \<forall>x \<in> set xs. (0::int) < x \<Longrightarrow> 0 < sum_list xs"
  by (induction xs) (auto simp add: add_pos_nonneg sum_list_nonneg less_imp_le)

lemma created_product:
  assumes "create_product js valid f s new_id req = (Created pid, s')"
  shows "\<exists>p. products s' = products s @ [p] \<and> p_id p = pid
            \<and> cast_sizes (process_sizes (cr_body req)) = Some (p_sizes p)"
  using assms
  by (auto simp add: create_product_def Let_def split: if_splits option.splits)

text \<open>
  C10. When the creation form selects no sizes and carries no positive quantity field for
  the sizes 6 to 12, the sizes of the product default to the single entry
  \<^verbatim>\<open>{size: 9, quantity: 10}\<close>. Every product that the route creates stores the processed
  sizes: the list is not empty, every entry has a positive quantity, and the total stock
  is positive.
\<close>

theorem C10_created_product_sizes:
  "(\<not> truthy (cr_body req ''sizes'') \<and> (\<forall>n \<in> set [6..12]. \<not> positive_quantity (cr_body req) n)
      \<longrightarrow> process_sizes (cr_body req) = [\<lparr>rs_size = Some 9, rs_quantity = 10\<rparr>])
   \<and> (create_product js valid f s new_id req = (Created pid, s') \<longrightarrow>
        (\<exists>p. products s' = products s @ [p]
           \<and> cast_sizes (process_sizes (cr_body req)) = Some (p_sizes p)
           \<and> p_sizes p \<noteq> []
           \<and> list_all (\<lambda>e. se_quantity e > 0) (p_sizes p)
           \<and> totalStock p > 0))"
proof (intro conjI impI)
  assume "\<not> truthy (cr_body req ''sizes'') \<and> (\<forall>n \<in> set [6..12]. \<not> positive_quantity (cr_body req) n)"
  then show "process_sizes (cr_body req) = [\<lparr>rs_size = Some 9, rs_quantity = 10\<rparr>]"
    by (simp add: process_sizes_default)
next
  assume "create_product js valid f s new_id req = (Created pid, s')"
  then obtain p where p: "products s' = products s @ [p]"
    and cast: "cast_sizes (process_sizes (cr_body req)) = Some (p_sizes p)"
    using created_product by blast
  have quantities: "map se_quantity (p_sizes p) = map rs_quantity (process_sizes (cr_body req))"
    using cast by (rule cast_sizes_quantities)
  have nonempty: "p_sizes p \<noteq> []"
  proof
    assume "p_sizes p = []"
    with quantities have "process_sizes (cr_body req) = []" by simp
    then show False by (simp add: process_sizes_nonempty)
  qed
  have positive: "\<forall>q \<in> set (map se_quantity (p_sizes p)). 0 < q"
    unfolding quantities using process_sizes_positive by auto
  then have all: "list_all (\<lambda>e. se_quantity e > 0) (p_sizes p)"
    by (simp add: list_all_iff)
  have "0 < sum_list (map se_quantity (p_sizes p))"
    using nonempty positive by (intro sum_list_positive) simp_all
  then have "totalStock p > 0" by (simp add: totalStock_sum)
  with p cast nonempty all
  show "\<exists>p. products s' = products s @ [p]
           \<and> cast_sizes (process_sizes (cr_body req)) = Some (p_sizes p)
           \<and> p_sizes p \<noteq> []
           \<and> list_all (\<lambda>e. se_quantity e > 0) (p_sizes p)
           \<and> totalStock p > 0"
    by blast
qed

lemma example_created:
  "create_product example_numbers example_valid no_faults example_store ''p2'' example_request
   = (Created ''p2'', example_store\<lparr>products := [example_product,
       \<lparr>p_id = ''p2'', p_name = ''Runner'', p_description = ''Running shoe'',
         p_price = 1299, p_discountPrice = Some 899,
         p_category = ''sports'', p_brand = ''Campus'',
         p_sizes = [\<lparr>se_size = 9, se_quantity = 10\<rparr>],
         p_colors =
           [\<lparr>col_name = ''Default'', col_code = ''#000000'',
               col_images = [''https://img/a.jpg'']\<rparr>],
         p_featured = False, p_images = None, p_stock = None,
         p_quantity = None\<rparr>]\<rparr>)"
  by (simp add: create_product_def example_numbers_def example_request_def example_store_def no_faults_def
     example_valid_def read_price_def read_discount_def text_of_def
     validation_errors_def blank_def absent_def price_invalid_def trim_def is_space_def
     process_sizes_def sizes_from_checkboxes_def sizes_from_fields_def field_entry_def positive_quantity_def truthy_def
     process_colors_def assign_images_def
     parseInt_def is_digit_def digit_value_def digits_value_def)

theorem C10_created_product_sizes_witness:
  "process_sizes (cr_body example_request) = [\<lparr>rs_size = Some 9, rs_quantity = 10\<rparr>]
   \<and> (\<exists>p. products (snd (create_product example_numbers example_valid no_faults example_store ''p2'' example_request))
            = products example_store @ [p]
         \<and> p_sizes p = [\<lparr>se_size = 9, se_quantity = 10\<rparr>] \<and> totalStock p > 0)"
proof -
  let ?s' = "snd (create_product example_numbers example_valid no_faults example_store ''p2'' example_request)"
  have created: "create_product example_numbers example_valid no_faults example_store ''p2'' example_request
      = (Created ''p2'', ?s')"
    by (simp add: example_created)
  have no_sizes: "\<not> truthy (cr_body example_request ''sizes'')
      \<and> (\<forall>n \<in> set [6..12]. \<not> positive_quantity (cr_body example_request) n)"
    by (simp add: example_request_def truthy_def positive_quantity_def)
  from C10_created_product_sizes [where req = example_request and js = example_numbers
      and valid = example_valid and f = no_faults and s = example_store and new_id = "''p2''" and pid = "''p2''"
      and s' = ?s'] created no_sizes
  show ?thesis by auto
qed

lemma find_size_decrement:
  "find_size sz' (decrement_entry sz amount es) =
     (if sz' = sz then map_option (\<lambda>e. e\<lparr>se_quantity := se_quantity e - amount\<rparr>) (find_size sz es)
      else find_size sz' es)"
  by (induction es) auto

lemma findById_decrement:
  "findById (decrement_product pid sz amount ps) pid' =
     (if pid' = pid then map_option (\<lambda>p. p\<lparr>p_sizes := decrement_entry sz amount (p_sizes p)\<rparr>) (findById ps pid)
      else findById ps pid')"
  by (induction ps) auto

lemma availableStock_decrement:
  "availableStock (decrement_product pid sz amount ps) pid' sz' =
     (if pid' = pid \<and> sz' = sz \<and> has_size ps pid sz
      then availableStock ps pid sz - amount
      else availableStock ps pid' sz')"
  by (auto simp add: availableStock_def has_size_def findById_decrement find_size_decrement
      split: option.splits)

lemma availableStock_positive_has_size: "0 < availableStock ps pid sz \<Longrightarrow> has_size ps pid sz"
  by (auto simp add: availableStock_def has_size_def split: option.splits)




lemma decrementStock_rest:
  "carts (snd (decrementStock s pid sz amount)) = carts s
   \<and> orders (snd (decrementStock s pid sz amount)) = orders s
   \<and> users (snd (decrementStock s pid sz amount)) = users s"
  by (simp add: decrementStock_def)


lemma checkout_failed_unchanged: "fst (checkout s oid created uid) = Inl err \<Longrightarrow> snd (checkout s oid created uid) = s"
  by (auto simp add: checkout_def split: option.splits if_splits sum.splits)



lemma decrementStock_ok:
  assumes "1 \<le> amount" and "amount \<le> availableStock (products s) pid sz"
  shows "fst (decrementStock s pid sz amount) = Inr ()"
    and "availableStock (products (snd (decrementStock s pid sz amount))) pid' sz' =
           (if pid' = pid \<and> sz' = sz then availableStock (products s) pid sz - amount
            else availableStock (products s) pid' sz')"
proof -
  from assms have "has_size (products s) pid sz"
    by (intro availableStock_positive_has_size) simp
  with assms show "fst (decrementStock s pid sz amount) = Inr ()"
    and "availableStock (products (snd (decrementStock s pid sz amount))) pid' sz' =
           (if pid' = pid \<and> sz' = sz then availableStock (products s) pid sz - amount
            else availableStock (products s) pid' sz')"
    by (simp_all add: decrementStock_def availableStock_decrement)
qed

lemma demand_Cons:
  "demand (l # ls) pid sz =
     (if ci_product l = pid \<and> ci_size l = sz then ci_quantity l else 0) + demand ls pid sz"
  by (simp add: demand_def)

lemma demand_nonneg: "\<forall>l \<in> set ls. 1 \<le> ci_quantity l \<Longrightarrow> 0 \<le> demand ls pid sz"
  by (induction ls) (auto simp add: demand_Cons, simp add: demand_def)

lemma demand_member:
  "\<forall>l \<in> set ls. 1 \<le> ci_quantity l \<Longrightarrow> l \<in> set ls \<Longrightarrow>
   ci_quantity l \<le> demand ls (ci_product l) (ci_size l)"
proof (induction ls)
  case Nil
  then show ?case by simp
next
  case (Cons a ls)
  have rest: "0 \<le> demand ls (ci_product l) (ci_size l)"
    using Cons.prems(1) by (intro demand_nonneg) simp
  show ?case
  proof (cases "l = a")
    case True
    with rest show ?thesis by (simp add: demand_Cons)
  next
    case False
    with Cons have "ci_quantity l \<le> demand ls (ci_product l) (ci_size l)" by simp
    moreover have "0 \<le> (if ci_product a = ci_product l \<and> ci_size a = ci_size l then ci_quantity a else 0)"
      using Cons.prems(1) by simp
    ultimately show ?thesis by (simp add: demand_Cons)
  qed
qed

lemma decrement_lines_ok:
  assumes "\<forall>l \<in> set ls. 1 \<le> ci_quantity l"
    and "\<forall>l \<in> set ls. demand_in_stock (products s) ls l"
  shows "\<exists>s'. decrement_lines s ls = Inr s'
           \<and> (\<forall>pid sz. availableStock (products s') pid sz
                          = availableStock (products s) pid sz - demand ls pid sz)
           \<and> carts s' = carts s \<and> orders s' = orders s \<and> users s' = users s"
  using assms
proof (induction ls arbitrary: s)
  case Nil
  then show ?case by (simp add: demand_def)
next
  case (Cons l ls)
  let ?pid = "ci_product l" and ?sz = "ci_size l" and ?q = "ci_quantity l"
  let ?s1 = "snd (decrementStock s ?pid ?sz ?q)"
  have q1: "1 \<le> ?q" using Cons.prems(1) by simp
  have rest_nonneg: "0 \<le> demand ls pid sz" for pid sz
    using Cons.prems(1) by (intro demand_nonneg) simp
  have head: "?q + demand ls ?pid ?sz \<le> availableStock (products s) ?pid ?sz"
    using Cons.prems(2) by (simp add: demand_in_stock_def demand_Cons)
  then have fits: "?q \<le> availableStock (products s) ?pid ?sz"
    using rest_nonneg [of ?pid ?sz] by linarith
  note step = decrementStock_ok [OF q1 fits]
  have stock1: "availableStock (products ?s1) pid sz =
      (if pid = ?pid \<and> sz = ?sz then availableStock (products s) ?pid ?sz - ?q
       else availableStock (products s) pid sz)" for pid sz
    by (rule step(2))
  have "\<forall>l' \<in> set ls. demand_in_stock (products ?s1) ls l'"
  proof
    fix l' assume l': "l' \<in> set ls"
    then have "demand (l # ls) (ci_product l') (ci_size l')
        \<le> availableStock (products s) (ci_product l') (ci_size l')"
      using Cons.prems(2) by (simp add: demand_in_stock_def)
    then show "demand_in_stock (products ?s1) ls l'"
      by (auto simp add: demand_in_stock_def stock1 demand_Cons split: if_splits)
  qed
  moreover have "\<forall>l' \<in> set ls. 1 \<le> ci_quantity l'" using Cons.prems(1) by simp
  ultimately obtain s' where s': "decrement_lines ?s1 ls = Inr s'"
    and stock': "\<forall>pid sz. availableStock (products s') pid sz
                   = availableStock (products ?s1) pid sz - demand ls pid sz"
    and rest': "carts s' = carts ?s1" "orders s' = orders ?s1" "users s' = users ?s1"
    using Cons.IH [of ?s1] by blast
  have "decrement_lines s (l # ls) = Inr s'"
    using step(1) s' by simp
  moreover have "\<forall>pid sz. availableStock (products s') pid sz
      = availableStock (products s) pid sz - demand (l # ls) pid sz"
    using stock' by (auto simp add: stock1 demand_Cons)
  moreover have "carts s' = carts s \<and> orders s' = orders s \<and> users s' = users s"
    using rest' by (simp add: decrementStock_rest)
  ultimately show ?case by blast
qed

lemma verify_lines_None: "\<forall>l \<in> set ls. line_in_stock ps l \<Longrightarrow> verify_lines ps ls = None"
  by (induction ls) auto

lemma verify_lines_Some:
  "\<exists>l \<in> set ls. \<not> line_in_stock ps l \<Longrightarrow>
   \<exists>l \<in> set ls. \<not> line_in_stock ps l \<and> verify_lines ps ls = Some (line_shortfall ps l)"
  by (induction ls) auto


lemma cart_lines_Some: "carts s uid = Some cart \<Longrightarrow> cart_lines s uid = c_items cart"
  by (simp add: cart_lines_def)

lemma cart_lines_nonempty: "cart_lines s uid \<noteq> [] \<Longrightarrow> \<exists>cart. carts s uid = Some cart \<and> c_items cart \<noteq> []"
  by (auto simp add: cart_lines_def split: option.splits)

lemma checkout_ok:
  assumes nonempty: "cart_lines s uid \<noteq> []"
    and pos: "\<forall>l \<in> set (cart_lines s uid). 1 \<le> ci_quantity l"
    and fits: "\<forall>l \<in> set (cart_lines s uid). demand_in_stock (products s) (cart_lines s uid) l"
  shows "fst (checkout s oid created uid) = Inr (new_order oid created uid (cart_lines s uid))"
    and "availableStock (products (snd (checkout s oid created uid))) pid sz
           = availableStock (products s) pid sz - demand (cart_lines s uid) pid sz"
    and "orders (snd (checkout s oid created uid))
           = orders s @ [new_order oid created uid (cart_lines s uid)]"
    and "cart_lines (snd (checkout s oid created uid)) uid = []"
proof -
  from nonempty obtain cart where cart: "carts s uid = Some cart" "c_items cart \<noteq> []"
    using cart_lines_nonempty by blast
  then have lines: "cart_lines s uid = c_items cart" by (simp add: cart_lines_def)
  have "\<forall>l \<in> set (c_items cart). line_in_stock (products s) l"
  proof
    fix l assume l: "l \<in> set (c_items cart)"
    then have "ci_quantity l \<le> demand (c_items cart) (ci_product l) (ci_size l)"
      using pos lines by (intro demand_member) simp_all
    moreover have "demand_in_stock (products s) (c_items cart) l"
      using fits l lines by simp
    ultimately show "line_in_stock (products s) l"
      by (simp add: line_in_stock_def demand_in_stock_def)
  qed
  then have verified: "verify_lines (products s) (c_items cart) = None"
    by (rule verify_lines_None)
  obtain s1 where s1: "decrement_lines s (c_items cart) = Inr s1"
    and stock1: "\<forall>pid sz. availableStock (products s1) pid sz
                   = availableStock (products s) pid sz - demand (c_items cart) pid sz"
    and rest1: "carts s1 = carts s" "orders s1 = orders s"
    using decrement_lines_ok [of "c_items cart" s] pos fits lines by auto
  have result: "checkout s oid created uid =
      (Inr (new_order oid created uid (c_items cart)),
       s1\<lparr>orders := orders s1 @ [new_order oid created uid (c_items cart)],
          carts := (carts s1)(uid \<mapsto> cart\<lparr>c_items := []\<rparr>)\<rparr>)"
    using cart verified s1 by (simp add: checkout_def)
  show "fst (checkout s oid created uid) = Inr (new_order oid created uid (cart_lines s uid))"
    by (simp add: result lines)
  show "availableStock (products (snd (checkout s oid created uid))) pid sz
           = availableStock (products s) pid sz - demand (cart_lines s uid) pid sz"
    using stock1 by (simp add: result lines)
  show "orders (snd (checkout s oid created uid))
           = orders s @ [new_order oid created uid (cart_lines s uid)]"
    by (simp add: result lines rest1)
  show "cart_lines (snd (checkout s oid created uid)) uid = []"
    by (simp add: result cart_lines_def)
qed

lemma checkout_short:
  assumes "\<exists>l \<in> set (cart_lines s uid). \<not> line_in_stock (products s) l"
  shows "\<exists>l \<in> set (cart_lines s uid). \<not> line_in_stock (products s) l
           \<and> checkout s oid created uid = (Inl (line_shortfall (products s) l), s)"
proof -
  from assms have "cart_lines s uid \<noteq> []" by auto
  then obtain cart where cart: "carts s uid = Some cart" "c_items cart \<noteq> []"
    using cart_lines_nonempty by blast
  then have lines: "cart_lines s uid = c_items cart" by (simp add: cart_lines_def)
  from assms obtain l where "l \<in> set (c_items cart)" "\<not> line_in_stock (products s) l"
    and "verify_lines (products s) (c_items cart) = Some (line_shortfall (products s) l)"
    using verify_lines_Some [of "c_items cart" "products s"] lines by auto
  then show ?thesis using cart lines by (auto simp add: checkout_def)
qed

text \<open>
  C1, for the checkout of section 4.4. For a cart with lines of quantity at least 1: if
  for every line the quantities of all lines with its (product, size) together are at
  most the current stock, checkout returns the order, lowers every (product, size) stock
  by exactly what the lines ask of it, appends exactly one order and empties the cart. If
  some line asks for more than the current stock, checkout fails with the
  \<^verbatim>\<open>InsufficientStock\<close> of such a line and the store is unchanged. Whenever checkout
  fails, the store is unchanged. A line that shares its (product, size) with no other line
  is all that is asked of that stock.
\<close>

theorem C1_checkout_all_or_nothing:
  "(cart_lines s uid \<noteq> []
      \<and> (\<forall>l \<in> set (cart_lines s uid). 1 \<le> ci_quantity l)
      \<and> (\<forall>l \<in> set (cart_lines s uid). demand_in_stock (products s) (cart_lines s uid) l)
    \<longrightarrow> fst (checkout s oid created uid) = Inr (new_order oid created uid (cart_lines s uid))
      \<and> (\<forall>pid sz. availableStock (products (snd (checkout s oid created uid))) pid sz
                     = availableStock (products s) pid sz - demand (cart_lines s uid) pid sz)
      \<and> orders (snd (checkout s oid created uid))
          = orders s @ [new_order oid created uid (cart_lines s uid)]
      \<and> cart_lines (snd (checkout s oid created uid)) uid = [])
   \<and> ((\<exists>l \<in> set (cart_lines s uid). \<not> line_in_stock (products s) l)
    \<longrightarrow> (\<exists>l \<in> set (cart_lines s uid).
           ci_quantity l > availableStock (products s) (ci_product l) (ci_size l)
           \<and> checkout s oid created uid =
               (Inl (InsufficientStock (ci_product l) (ci_size l) (ci_quantity l)
                       (availableStock (products s) (ci_product l) (ci_size l))), s)))
   \<and> (isl (fst (checkout s oid created uid)) \<longrightarrow> snd (checkout s oid created uid) = s)
   \<and> (filter (\<lambda>l'. ci_product l' = ci_product l \<and> ci_size l' = ci_size l) (cart_lines s uid) = [l]
    \<longrightarrow> demand (cart_lines s uid) (ci_product l) (ci_size l) = ci_quantity l)"
proof (intro conjI impI)
  assume "filter (\<lambda>l'. ci_product l' = ci_product l \<and> ci_size l' = ci_size l) (cart_lines s uid) = [l]"
  then show "demand (cart_lines s uid) (ci_product l) (ci_size l) = ci_quantity l"
    by (simp add: demand_def)
next
  assume short: "\<exists>l \<in> set (cart_lines s uid). \<not> line_in_stock (products s) l"
  show "\<exists>l \<in> set (cart_lines s uid).
           ci_quantity l > availableStock (products s) (ci_product l) (ci_size l)
           \<and> checkout s oid created uid =
               (Inl (InsufficientStock (ci_product l) (ci_size l) (ci_quantity l)
                       (availableStock (products s) (ci_product l) (ci_size l))), s)"
  proof -
    from short obtain l where l: "l \<in> set (cart_lines s uid)"
      and out: "\<not> line_in_stock (products s) l"
      and failed: "checkout s oid created uid = (Inl (line_shortfall (products s) l), s)"
      using checkout_short [of s uid oid created] by blast
    from out have "ci_quantity l > availableStock (products s) (ci_product l) (ci_size l)"
      by (simp add: line_in_stock_def)
    with l failed show ?thesis
      by (intro bexI [of _ l]) (simp_all add: line_shortfall_def)
  qed
next
  assume "isl (fst (checkout s oid created uid))"
  then show "snd (checkout s oid created uid) = s"
    by (auto simp add: isl_def dest: checkout_failed_unchanged)
qed (simp_all add: checkout_ok)

lemma example_stock: "availableStock (products (cart_of q)) ''p1'' 9 = 3"
  by (simp add: cart_of_def example_store_def example_product_def availableStock_def)

lemma cart_of_lines: "cart_lines (cart_of q) ''u1'' = [new_item example_product q 9 ''Black'']"
  by (simp add: cart_of_def cart_lines_def)

lemma new_item_key:
  "ci_product (new_item example_product q sz col) = ''p1''
   \<and> ci_size (new_item example_product q sz col) = sz
   \<and> ci_quantity (new_item example_product q sz col) = q"
  by (simp add: new_item_def example_product_def)

theorem C1_checkout_all_or_nothing_witness:
  "fst (checkout (cart_of 2) ''o1'' 0 ''u1'')
     = Inr (new_order ''o1'' 0 ''u1'' [new_item example_product 2 9 ''Black''])
   \<and> availableStock (products (snd (checkout (cart_of 2) ''o1'' 0 ''u1''))) ''p1'' 9 = 1
   \<and> cart_lines (snd (checkout (cart_of 2) ''o1'' 0 ''u1'')) ''u1'' = []
   \<and> checkout (cart_of 4) ''o1'' 0 ''u1'' = (Inl (InsufficientStock ''p1'' 9 4 3), cart_of 4)"
  using C1_checkout_all_or_nothing [where s = "cart_of 2" and uid = "''u1''" and oid = "''o1''"
      and created = 0 and l = "new_item example_product 2 9 ''Black''"]
    C1_checkout_all_or_nothing [where s = "cart_of 4" and uid = "''u1''" and oid = "''o1''"
      and created = 0 and l = "new_item example_product 4 9 ''Black''"]
  by (simp add: cart_of_lines new_item_key example_stock demand_in_stock_def demand_def
      line_in_stock_def)

text \<open>
  Stock is kept per size and shared by the colors. With 3 pairs of size 9 in stock and a
  cart of 2 pairs in black and 2 pairs in white, every line is within the current stock,
  yet checkout fails: the second decrement finds 1 pair left.
\<close>

theorem C1_shared_stock_counterexample:
  "cart_lines two_colors ''u1'' \<noteq> []
   \<and> list_all (line_in_stock (products two_colors)) (cart_lines two_colors ''u1'')
   \<and> fst (checkout two_colors ''o1'' 0 ''u1'') = Inl (InsufficientStock ''p1'' 9 2 1)
   \<and> snd (checkout two_colors ''o1'' 0 ''u1'') = two_colors"
  by (simp add: two_colors_def cart_lines_def line_in_stock_def new_item_key checkout_def
      decrementStock_def availableStock_def example_store_def)
     (simp add: example_product_def new_item_def)


















lemma admin_create_stores_negative:
  "fst (admin_create example_toNumber no_validators no_faults example_store ''p2'' negative_listing)
     = ListingCreated ''p2''
   \<and> availableStock (products (snd (admin_create example_toNumber no_validators no_faults
         example_store ''p2'' negative_listing))) ''p2'' 9 = - 2"
  by (simp add: admin_create_def example_toNumber_def negative_listing_def example_listing_def
      no_validators_def example_store_def example_product_def no_faults_def Let_def
      listing_sizes_def listing_colors_def as_text_def listed_entry_def listed_color_def
      cast_price_def cast_discount_def text_of_def trim_def enumerate_eq_zip
      parseInt_field_def to_string_def availableStock_def
      parseInt_def is_space_def is_digit_def digit_value_def digits_value_def)

lemma view_carts: "carts t = carts s \<Longrightarrow> view t uid = view s uid"
  by (simp add: view_def cart_lines_def)

lemma edit_product_carts: "carts (snd (edit_product js valid f s pid req)) = carts s"
  by (simp add: edit_product_def Let_def split: option.splits)

lemma view_after_add:
  assumes "findById (products s) pid = Some p"
    and "\<forall>item \<in> set (cart_lines s uid). \<not> same_key pid sz col item"
  shows "v_total (view (snd (addItem no_faults s uid pid
            \<lparr>b_quantity = Some q, b_size = sz, b_color = col\<rparr>)) uid)
         = v_total (view s uid)
           + (case p_discountPrice p of None \<Rightarrow> p_price p | Some d \<Rightarrow> d) * of_int q"
proof -
  have "p_id p = pid" using assms(1) by (rule findById_id)
  with assms(2) have "\<forall>item \<in> set (cart_lines s uid). \<not> same_key (p_id p) sz col item"
    by simp
  then have "cart_lines (snd (addItem no_faults s uid pid
        \<lparr>b_quantity = Some q, b_size = sz, b_color = col\<rparr>)) uid
      = cart_lines s uid @ [new_item p q sz col]"
    using assms(1) by (simp add: cart_lines_after_add add_to_items_fresh)
  then show ?thesis
    by (simp add: view_def line_subtotal_def line_unit_price_def new_item_def
        split: option.splits)
qed


text \<open>
  C9, for the \<^verbatim>\<open>view\<close> of section 4.3. Two states that differ only in product price
  fields give the same view, totals included; so does the state after any run of the
  admin edit route. After a line was added and the admin edit route ran, the total is
  still the old total plus the line's quantity times the price the product had when the
  line was added.
\<close>

theorem C9_view_uses_snapshot_prices:
  "(differ_only_in_prices s t \<longrightarrow> view t uid = view s uid)
   \<and> view (snd (edit_product js valid f s pid' req)) uid = view s uid
   \<and> (findById (products s) pid = Some p
        \<and> (\<forall>item \<in> set (cart_lines s uid). \<not> same_key pid sz col item)
      \<longrightarrow> v_total (view (snd (edit_product js valid f
                (snd (addItem no_faults s uid pid
                        \<lparr>b_quantity = Some q, b_size = sz, b_color = col\<rparr>)) pid' req)) uid)
          = v_total (view s uid)
            + (case p_discountPrice p of None \<Rightarrow> p_price p | Some d \<Rightarrow> d) * of_int q)"
proof (intro conjI impI)
  assume "differ_only_in_prices s t"
  then have "carts t = carts s" by (simp add: differ_only_in_prices_def)
  then show "view t uid = view s uid" by (rule view_carts)
next
  show "view (snd (edit_product js valid f s pid' req)) uid = view s uid"
    using edit_product_carts by (rule view_carts)
next
  let ?s1 = "snd (addItem no_faults s uid pid \<lparr>b_quantity = Some q, b_size = sz, b_color = col\<rparr>)"
  assume "findById (products s) pid = Some p
        \<and> (\<forall>item \<in> set (cart_lines s uid). \<not> same_key pid sz col item)"
  then have "v_total (view ?s1 uid)
      = v_total (view s uid)
        + (case p_discountPrice p of None \<Rightarrow> p_price p | Some d \<Rightarrow> d) * of_int q"
    by (simp add: view_after_add)
  moreover have "view (snd (edit_product js valid f ?s1 pid' req)) uid = view ?s1 uid"
    using edit_product_carts by (rule view_carts)
  ultimately show "v_total (view (snd (edit_product js valid f ?s1 pid' req)) uid)
          = v_total (view s uid)
            + (case p_discountPrice p of None \<Rightarrow> p_price p | Some d \<Rightarrow> d) * of_int q"
    by simp
qed

lemma example_edited:
  "map p_price (products (snd (edit_product example_numbers example_valid no_faults
      (cart_of 2) ''p1'' example_edit))) = [1500]"
  by (simp add: edit_product_def example_numbers_def example_edit_def example_valid_def
      cart_of_def example_store_def example_product_def no_faults_def Let_def
      read_price_def read_discount_def text_of_def edit_sizes_def edited_entry_def
      truthy_def parseInt_field_def to_string_def add_images_def edit_colors_def
      parseInt_def is_space_def is_digit_def digit_value_def digits_value_def)

theorem C9_view_uses_snapshot_prices_witness:
  "differ_only_in_prices (cart_of 2) (repriced (cart_of 2))
   \<and> map p_price (products (repriced (cart_of 2))) = [1500]
   \<and> view (repriced (cart_of 2)) ''u1'' = view (cart_of 2) ''u1''
   \<and> v_total (view (snd (edit_product example_numbers example_valid no_faults
        (snd (addItem no_faults example_store ''u1'' ''p1''
                \<lparr>b_quantity = Some 2, b_size = 9, b_color = ''Black''\<rparr>)) ''p1'' example_edit))
        ''u1'') = 1798"
proof -
  have differ: "differ_only_in_prices (cart_of 2) (repriced (cart_of 2))"
    by (simp add: differ_only_in_prices_def repriced_def cart_of_def example_store_def
        same_but_prices_def)
  have price: "map p_price (products (repriced (cart_of 2))) = [1500]"
    by (simp add: repriced_def cart_of_def example_store_def)
  have found: "findById (products example_store) ''p1'' = Some example_product"
    by (simp add: example_store_def example_product_def)
  have fresh: "\<forall>item \<in> set (cart_lines example_store ''u1''). \<not> same_key ''p1'' 9 ''Black'' item"
    by (simp add: cart_lines_def example_store_def)
  have empty: "v_total (view example_store ''u1'') = 0"
    by (simp add: view_def cart_lines_def example_store_def)
  have unit: "(case p_discountPrice example_product of None \<Rightarrow> p_price example_product | Some d \<Rightarrow> d) = 899"
    by (simp add: example_product_def)
  from C9_view_uses_snapshot_prices [where s = "cart_of 2" and t = "repriced (cart_of 2)"
      and uid = "''u1''"] differ
  have same: "view (repriced (cart_of 2)) ''u1'' = view (cart_of 2) ''u1''" by blast
  from C9_view_uses_snapshot_prices [where s = example_store and uid = "''u1''"
      and pid = "''p1''" and p = example_product and sz = 9 and col = "''Black''" and q = 2
      and js = example_numbers and valid = example_valid and f = no_faults
      and pid' = "''p1''" and req = example_edit] found fresh
  have "v_total (view (snd (edit_product example_numbers example_valid no_faults
        (snd (addItem no_faults example_store ''u1'' ''p1''
                \<lparr>b_quantity = Some 2, b_size = 9, b_color = ''Black''\<rparr>)) ''p1'' example_edit))
        ''u1'') = 1798"
    by (simp add: empty unit)
  with differ price same show ?thesis by simp
qed

end
